theory Spec2Isabelle
  imports Main "HOL-Library.Word" "HOL-Library.AList"
begin

section \<open>JavaScript values shared by the route handlers\<close>

text \<open>
  Strings are \<open>string\<close> (ASCII code units; the handlers only compare, concatenate and
  filter them). A thrown value is an error object with the two properties the handlers
  read, \<open>name\<close> and \<open>message\<close>. A value that may be \<open>null\<close> or \<open>undefined\<close> is an
  \<open>option\<close>.
\<close>

record js_error =
  err_name :: string
  err_message :: string

definition Error :: "string \<Rightarrow> js_error" where
  "Error m = \<lparr>err_name = ''Error'', err_message = m\<rparr>"

definition TypeError :: "string \<Rightarrow> js_error" where
  "TypeError m = \<lparr>err_name = ''TypeError'', err_message = m\<rparr>"

definition SyntaxError :: "string \<Rightarrow> js_error" where
  "SyntaxError m = \<lparr>err_name = ''SyntaxError'', err_message = m\<rparr>"

text \<open>\<open>!v\<close> for a string that may be missing: \<open>undefined\<close>, \<open>null\<close> and \<open>''\<close> are falsy.\<close>

definition truthy :: "string option \<Rightarrow> bool" where
  "truthy v = (case v of None \<Rightarrow> False | Some s \<Rightarrow> s \<noteq> [])"

fun starts_with :: "string \<Rightarrow> string \<Rightarrow> bool" where
  "starts_with s [] = True"
| "starts_with [] (c # cs) = False"
| "starts_with (d # ds) (c # cs) = (d = c \<and> starts_with ds cs)"

text \<open>\<open>String.prototype.includes\<close>.\<close>

fun includes_str :: "string \<Rightarrow> string \<Rightarrow> bool" where
  "includes_str [] sub = (sub = [])"
| "includes_str (c # cs) sub = (starts_with (c # cs) sub \<or> includes_str cs sub)"

definition digit_char :: "nat \<Rightarrow> char" where
  "digit_char n = ''0123456789'' ! (n mod 10)"

text \<open>The decimal rendering of a non-negative integer in a template literal.\<close>

fun nat_to_string :: "nat \<Rightarrow> string" where
  "nat_to_string n =
     (if n < 10 then [digit_char n] else nat_to_string (n div 10) @ [digit_char n])"

declare nat_to_string.simps [simp del]

subsection \<open>Store identifiers\<close>

text \<open>
  An \<open>ObjectId\<close> of the driver is twelve bytes, here a 96-bit word. \<open>toHexString\<close> is
  its rendering as 24 lower-case hexadecimal digits, \<open>ObjectId.isValid\<close> on a string is
  the driver's test \<open>/^[0-9a-fA-F]{24}$/\<close>, and \<open>new ObjectId(s)\<close> reads such a string
  back. (Drivers before version 6 also accept any 12-character string; that legacy
  form is not part of the model.)
\<close>

type_synonym ObjectId = "96 word"

definition is_hex_char :: "char \<Rightarrow> bool" where
  "is_hex_char c = (c \<in> set ''0123456789abcdefABCDEF'')"

definition ObjectId_isValid :: "string \<Rightarrow> bool" where
  "ObjectId_isValid s = (length s = 24 \<and> list_all is_hex_char s)"

definition hex_digits :: string where
  "hex_digits = ''0123456789abcdef''"

definition hex_table :: "(char \<times> nat) list" where
  "hex_table = zip ''0123456789abcdefABCDEF''
     [0, 1, 2, 3, 4, 5, 6, 7, 8, 9, 10, 11, 12, 13, 14, 15, 10, 11, 12, 13, 14, 15]"

definition hex_value :: "char \<Rightarrow> nat" where
  "hex_value c = (case map_of hex_table c of Some n \<Rightarrow> n | None \<Rightarrow> 0)"

definition new_ObjectId :: "string \<Rightarrow> ObjectId" where
  "new_ObjectId s = word_of_nat (foldl (\<lambda>a c. 16 * a + hex_value c) 0 s)"

definition hex_positions :: "nat list" where
  "hex_positions =
     [0, 1, 2, 3, 4, 5, 6, 7, 8, 9, 10, 11, 12, 13, 14, 15, 16, 17, 18, 19, 20, 21, 22, 23]"

definition toHexString :: "ObjectId \<Rightarrow> string" where
  "toHexString w = map (\<lambda>i. hex_digits ! ((unat w div 16 ^ (23 - i)) mod 16)) hex_positions"

subsection \<open>The object store and the database connection\<close>

text \<open>
  A stored file is the GridFS file document: name, content type, byte length and the
  metadata object written at upload. The bucket maps identifiers to documents; the
  collection \<open>images.files\<close> that \<open>DELETE\<close> reads is the bucket's own file collection.
\<close>

record file_metadata =
  md_originalName :: "string option"
  md_userId :: "string option"
  md_uploadedAt :: "string option"
  md_sourceContentType :: "string option"
  md_explicitContentType :: "string option"
  md_reqIdParent :: "string option"

record gridfs_file =
  gf_filename :: string
  gf_contentType :: "string option"
  gf_length :: nat
  gf_metadata :: "file_metadata option"

type_synonym bucket = "ObjectId \<rightharpoonup> gridfs_file"

text \<open>
  \<open>connectToDb\<close> lives in \<open>@/lib/mongodb\<close>, outside the sources at hand: its outcome is a
  parameter. It throws, or returns \<open>undefined\<close>, or an object that may or may not carry
  the \<open>bucket\<close> and \<open>db\<close> properties. The driver calls made on a live connection may
  throw too; each has its own parameter (\<open>None\<close>: the call succeeds).
\<close>

record db_connection =
  has_bucket :: bool
  has_db :: bool

record db_env =
  connectToDb :: "js_error + db_connection option"
  find_error :: "js_error option"
  findOne_error :: "js_error option"
  delete_error :: "js_error option"

record 'b response =
  status :: nat
  headers :: "(string \<times> string) list"
  body :: 'b

section \<open>The by-id route: GET and DELETE\<close>

datatype image_body =
    MessageBody string
  | ErrorPayload string string
  | FileStream ObjectId

definition json_message :: "nat \<Rightarrow> string \<Rightarrow> image_body response" where
  "json_message st m = \<lparr>status = st, headers = [], body = MessageBody m\<rparr>"

text \<open>The \<open>catch\<close> block of \<open>GET\<close>.\<close>

definition GET_catch :: "js_error \<Rightarrow> image_body response" where
  "GET_catch e =
     (if err_message e \<noteq> [] \<and> includes_str (err_message e) ''MongoDB connection error''
      then \<lparr>status = 500, headers = [],
            body = ErrorPayload ''Database connection error.'' (err_message e)\<rparr>
      else if err_name e = ''MongoGridFSFileNotFoundError''
              \<or> (err_message e \<noteq> [] \<and> includes_str (err_message e) ''File not found'')
      then \<lparr>status = 404, headers = [],
            body = ErrorPayload ''Image not found.'' (err_message e)\<rparr>
      else \<lparr>status = 500, headers = [],
            body = ErrorPayload ''Error serving image.'' (err_message e)\<rparr>)"

definition GET_found :: "ObjectId \<Rightarrow> gridfs_file \<Rightarrow> image_body response" where
  "GET_found objectId fileInfo =
     (let contentType = (case gf_contentType fileInfo of
                           None \<Rightarrow> ''application/octet-stream''
                         | Some t \<Rightarrow> if t = [] then ''application/octet-stream'' else t)
      in \<lparr>status = 200,
          headers = [(''Content-Type'', contentType),
                     (''Content-Length'', nat_to_string (gf_length fileInfo)),
                     (''Cache-Control'', ''public, max-age=604800, immutable'')],
          body = FileStream objectId\<rparr>)"

definition GET :: "db_env \<Rightarrow> bucket \<Rightarrow> string option \<Rightarrow> image_body response" where
  "GET env store fileId =
     (case fileId of
        None \<Rightarrow> json_message 400 ''Invalid or missing fileId.''
      | Some fid \<Rightarrow>
          if fid = [] \<or> \<not> ObjectId_isValid fid
          then json_message 400 ''Invalid or missing fileId.''
          else (case connectToDb env of
                  Inl e \<Rightarrow> GET_catch e
                | Inr None \<Rightarrow>
                    GET_catch (TypeError ''Cannot destructure property 'bucket' of 'dbConnection' as it is undefined.'')
                | Inr (Some conn) \<Rightarrow>
                    if \<not> has_bucket conn
                    then GET_catch (TypeError ''Cannot read properties of undefined (reading 'bucketName')'')
                    else (case find_error env of
                            Some e \<Rightarrow> GET_catch e
                          | None \<Rightarrow>
                              (case store (new_ObjectId fid) of
                                 None \<Rightarrow> json_message 404 ''Image not found.''
                               | Some fileInfo \<Rightarrow> GET_found (new_ObjectId fid) fileInfo))))"

text \<open>The \<open>catch\<close> block of \<open>DELETE\<close>: always 500.\<close>

definition DELETE_catch :: "js_error \<Rightarrow> image_body response" where
  "DELETE_catch e =
     (if err_message e \<noteq> [] \<and> includes_str (err_message e) ''MongoDB connection error''
      then \<lparr>status = 500, headers = [],
            body = ErrorPayload ''Database connection error.'' (err_message e)\<rparr>
      else \<lparr>status = 500, headers = [],
            body = ErrorPayload ''Error deleting image.'' (err_message e)\<rparr>)"

text \<open>\<open>fileMetadata.metadata?.userId\<close>.\<close>

definition owner_of :: "gridfs_file \<Rightarrow> string option" where
  "owner_of f = (case gf_metadata f of None \<Rightarrow> None | Some m \<Rightarrow> md_userId m)"

text \<open>
  \<open>DELETE\<close> takes the \<open>userId\<close> query parameter (\<open>None\<close> when the URL has none) and the
  \<open>fileId\<close> path parameter, and returns the response with the bucket as it leaves it.
\<close>

definition DELETE ::
  "db_env \<Rightarrow> bucket \<Rightarrow> string option \<Rightarrow> string option \<Rightarrow> image_body response \<times> bucket" where
  "DELETE env store userIdFromRequest fileId =
     (if \<not> truthy userIdFromRequest
      then (json_message 401 ''Unauthorized: Missing user identification.'', store)
      else (case fileId of
        None \<Rightarrow> (json_message 400 ''Invalid fileId.'', store)
      | Some fid \<Rightarrow>
          if fid = [] \<or> \<not> ObjectId_isValid fid
          then (json_message 400 ''Invalid fileId.'', store)
          else (case connectToDb env of
              Inl e \<Rightarrow> (DELETE_catch e, store)
            | Inr None \<Rightarrow>
                (DELETE_catch (TypeError ''Cannot destructure property 'db' of 'dbConnection' as it is undefined.''), store)
            | Inr (Some conn) \<Rightarrow>
                if \<not> has_db conn
                then (DELETE_catch (TypeError ''Cannot read properties of undefined (reading 'collection')''), store)
                else (case findOne_error env of
                        Some e \<Rightarrow> (DELETE_catch e, store)
                      | None \<Rightarrow>
                          (case store (new_ObjectId fid) of
                             None \<Rightarrow> (json_message 404 ''File not found.'', store)
                           | Some fileMetadata \<Rightarrow>
                               if owner_of fileMetadata \<noteq> userIdFromRequest
                               then (json_message 403 ''Unauthorized: You do not have permission to delete this file.'', store)
                               else if \<not> has_bucket conn
                               then (DELETE_catch (TypeError ''Cannot read properties of undefined (reading 'delete')''), store)
                               else (case delete_error env of
                                       Some e \<Rightarrow> (DELETE_catch e, store)
                                     | None \<Rightarrow>
                                         (json_message 200 ''File deleted successfully.'',
                                          store((new_ObjectId fid) := None))))))))"

section \<open>The upload route: POST\<close>

subsection \<open>The multipart form and its parsed shape\<close>

type_synonym bytes = "nat list"

text \<open>A \<open>File\<close> of the request's \<open>FormData\<close>; its \<open>size\<close> is the length of its bytes.\<close>

record form_file =
  file_name :: string
  file_type :: string
  file_bytes :: bytes

datatype form_value = FileValue form_file | TextValue string

text \<open>\<open>req.formData()\<close> throws or yields the entries in order.\<close>

type_synonym request = "js_error + (string \<times> form_value) list"

record CustomUploadedFile =
  filepath :: string
  originalFilename :: "string option"
  mimetype :: "string option"
  size_bytes :: nat

datatype field_value = Single string | Multi "string list"

text \<open>
  The two objects of the parsed form, \<open>fields\<close> and \<open>files\<close>, are association lists
  in insertion order. Of \<open>fields\<close> the handler reads \<open>userId\<close> only and of \<open>files\<close>
  \<open>file\<close> and the own enumerable values, so entries under other names only pass
  through.
\<close>

record CustomParsedForm =
  form_fields :: "(string \<times> field_value) list"
  form_files :: "(string \<times> CustomUploadedFile) list"

type_synonym filesystem = "string \<rightharpoonup> bytes"

record world =
  disk :: filesystem
  gridfs :: bucket

subsection \<open>The conversion service and the upload stream\<close>

datatype json =
    JNull
  | JBool bool
  | JNum int
  | JStr string
  | JArr "json list"
  | JObj "(string \<times> json) list"

text \<open>
  The response of the conversion service: \<open>resp_json\<close> is what \<open>JSON.parse\<close> makes of
  the body text, \<open>None\<close> when it throws.
\<close>

record flask_response =
  resp_ok :: bool
  resp_status :: nat
  resp_text :: string
  resp_json :: "json option"

text \<open>
  How piping the scratch file into \<open>bucket.openUploadStream\<close> ends: the \<open>finish\<close> event
  (the stream's \<open>id\<close> is then the stored file's identifier), an \<open>error\<close> event of the
  read stream or of the upload stream, or a synchronous throw.
\<close>

datatype upload_outcome =
    UploadFinish ObjectId
  | ReadStreamError js_error
  | UploadStreamError js_error
  | UploadThrows js_error

text \<open>
  Everything the handler obtains from outside: the database connection, the scratch
  directory, the clock (\<open>now env k\<close> is the \<open>k\<close>-th reading), the outcome of each file
  system call by path (\<open>None\<close>: it succeeds), the conversion service and the upload
  stream.
\<close>

record upload_env = db_env +
  tmpdir :: string
  now :: "nat \<Rightarrow> nat"
  toISOString :: "nat \<Rightarrow> string"
  writeFile_error :: "string \<Rightarrow> js_error option"
  readFile_error :: "string \<Rightarrow> js_error option"
  unlink_error :: "string \<Rightarrow> js_error option"
  fetch_flask :: "js_error + flask_response"
  upload_stream :: upload_outcome

subsection \<open>parseFormRevised\<close>

definition safe_char :: "char \<Rightarrow> bool" where
  "safe_char c =
     (c \<in> set ''abcdefghijklmnopqrstuvwxyzABCDEFGHIJKLMNOPQRSTUVWXYZ0123456789_.-'')"

text \<open>\<open>name.replace(/[^a-zA-Z0-9_.-]/g, '_')\<close>.\<close>

definition sanitize :: "string \<Rightarrow> string" where
  "sanitize s = map (\<lambda>c. if safe_char c then c else CHR ''_'') s"

definition temp_path :: "upload_env \<Rightarrow> string \<Rightarrow> nat \<Rightarrow> form_file \<Rightarrow> string" where
  "temp_path env reqId i f =
     tmpdir env @ ''/'' @ ''nextjs_temp_'' @ reqId @ ''_'' @ nat_to_string (now env i)
       @ ''_'' @ sanitize (file_name f)"

text \<open>
  The text branch of the loop: a first value is stored as it is (an empty earlier value
  is falsy and gets replaced), a second one turns the entry into an array, later ones
  are pushed.
\<close>

definition add_field ::
  "(string \<times> field_value) list \<Rightarrow> string \<Rightarrow> string \<Rightarrow> (string \<times> field_value) list" where
  "add_field flds key v =
     (case map_of flds key of
        Some (Multi vs) \<Rightarrow> AList.update key (Multi (vs @ [v])) flds
      | Some (Single s) \<Rightarrow>
          if s \<noteq> [] then AList.update key (Multi [s, v]) flds
          else AList.update key (Single v) flds
      | None \<Rightarrow> AList.update key (Single v) flds)"

text \<open>
  \<open>filesOutput[key] = {...}\<close>: a later file under the same name replaces the entry. The
  name \<open>__proto__\<close> sets the object's prototype and adds no own property.
\<close>

definition set_file ::
  "(string \<times> CustomUploadedFile) list \<Rightarrow> string \<Rightarrow> CustomUploadedFile
     \<Rightarrow> (string \<times> CustomUploadedFile) list" where
  "set_file fls key f = (if key = ''__proto__'' then fls else AList.update key f fls)"

text \<open>
  The loop over the entries. A failing write throws out of the loop; the scratch files
  written so far stay on disk, and the failed write itself leaves none.
\<close>

fun parse_entries ::
  "upload_env \<Rightarrow> string \<Rightarrow> nat \<Rightarrow> (string \<times> form_value) list \<Rightarrow> filesystem
     \<Rightarrow> CustomParsedForm \<Rightarrow> (js_error + CustomParsedForm) \<times> filesystem" where
  "parse_entries env reqId i [] dsk acc = (Inr acc, dsk)"
| "parse_entries env reqId i ((key, FileValue f) # rest) dsk acc =
     (case writeFile_error env (temp_path env reqId i f) of
        Some e \<Rightarrow>
          (Inl (Error (''Failed to write temporary file '' @ file_name f @ '': ''
                         @ err_message e)), dsk)
      | None \<Rightarrow>
          parse_entries env reqId (Suc i) rest
            (dsk(temp_path env reqId i f \<mapsto> file_bytes f))
            (acc\<lparr>form_files := set_file (form_files acc) key
                   \<lparr>filepath = temp_path env reqId i f,
                    originalFilename = Some (file_name f),
                    mimetype = Some (file_type f),
                    size_bytes = length (file_bytes f)\<rparr>\<rparr>))"
| "parse_entries env reqId i ((key, TextValue v) # rest) dsk acc =
     parse_entries env reqId (Suc i) rest dsk (acc\<lparr>form_fields := add_field (form_fields acc) key v\<rparr>)"

definition parseFormRevised ::
  "upload_env \<Rightarrow> string \<Rightarrow> request \<Rightarrow> filesystem
     \<Rightarrow> (js_error + CustomParsedForm) \<times> filesystem" where
  "parseFormRevised env reqId req dsk =
     (case req of
        Inl e \<Rightarrow> (Inl e, dsk)
      | Inr entries \<Rightarrow> parse_entries env reqId 0 entries dsk \<lparr>form_fields = [], form_files = []\<rparr>)"

subsection \<open>The PDF branch\<close>

definition SUPPORTED_IMAGE_TYPES :: "string list" where
  "SUPPORTED_IMAGE_TYPES = [''image/jpeg'', ''image/png'', ''image/gif'', ''image/webp'']"

definition SUPPORTED_PDF_TYPE :: string where
  "SUPPORTED_PDF_TYPE = ''application/pdf''"

definition sq :: string where
  "sq = [CHR 0x27]"

definition dq :: string where
  "dq = [CHR 0x22]"

text \<open>Property access \<open>v.k\<close> on a parsed JSON value other than \<open>null\<close>.\<close>

definition get_prop :: "json \<Rightarrow> string \<Rightarrow> json option" where
  "get_prop v k = (case v of JObj kvs \<Rightarrow> map_of (rev kvs) k | _ \<Rightarrow> None)"

fun js_truthy :: "json \<Rightarrow> bool" where
  "js_truthy JNull = False"
| "js_truthy (JBool b) = b"
| "js_truthy (JNum n) = (n \<noteq> 0)"
| "js_truthy (JStr s) = (s \<noteq> [])"
| "js_truthy (JArr xs) = True"
| "js_truthy (JObj kvs) = True"

fun join_comma :: "string list \<Rightarrow> string" where
  "join_comma [] = []"
| "join_comma [s] = s"
| "join_comma (s # t # ss) = s @ '','' @ join_comma (t # ss)"

text \<open>The string that \<open>new Error(v)\<close> makes of a JSON value.\<close>

fun js_String :: "json \<Rightarrow> string" where
  "js_String JNull = ''null''"
| "js_String (JBool b) = (if b then ''true'' else ''false'')"
| "js_String (JNum n) =
     (if n < 0 then ''-'' @ nat_to_string (nat (- n)) else nat_to_string (nat n))"
| "js_String (JStr s) = s"
| "js_String (JArr xs) = join_comma (map (\<lambda>x. if x = JNull then [] else js_String x) xs)"
| "js_String (JObj kvs) = ''[object Object]''"

definition lower_table :: "(char \<times> char) list" where
  "lower_table = zip ''ABCDEFGHIJKLMNOPQRSTUVWXYZ'' ''abcdefghijklmnopqrstuvwxyz''"

definition toLowerCase :: "string \<Rightarrow> string" where
  "toLowerCase s = map (\<lambda>c. case map_of lower_table c of Some l \<Rightarrow> l | None \<Rightarrow> c) s"

text \<open>The message thrown when the service answers with a status that is not ok.\<close>

definition flask_failure_message :: "string \<Rightarrow> flask_response \<Rightarrow> string" where
  "flask_failure_message actualOriginalName r =
     (let flaskErrorMsg = ''Flask server failed to process PDF '' @ sq @ actualOriginalName
                            @ sq @ ''. Status: '' @ nat_to_string (resp_status r) @ ''.'';
          unparsed = (if length (resp_text r) < 200
                      then flaskErrorMsg @ '' Response: '' @ resp_text r else flaskErrorMsg)
      in case resp_json r of
           None \<Rightarrow> unparsed
         | Some JNull \<Rightarrow> unparsed
         | Some v \<Rightarrow>
             (case get_prop v ''error'' of
                None \<Rightarrow> flaskErrorMsg
              | Some e \<Rightarrow> if js_truthy e then js_String e else flaskErrorMsg))"

record upload_result =
  res_originalName :: "json option"
  res_fileId :: "json option"
  res_filename :: "json option"
  res_contentType :: string
  res_pageNumber :: "json option"

text \<open>
  \<open>converted_files.map(...)\<close>: every element becomes one entry with the content type
  \<open>image/png\<close>; reading a property of a \<open>null\<close> element throws.
\<close>

fun convert_files :: "json list \<Rightarrow> js_error + upload_result list" where
  "convert_files [] = Inr []"
| "convert_files (convertedFile # rest) =
     (if convertedFile = JNull
      then Inl (TypeError ''Cannot read properties of null (reading 'originalName')'')
      else (case convert_files rest of
              Inl e \<Rightarrow> Inl e
            | Inr rs \<Rightarrow>
                Inr (\<lparr>res_originalName = get_prop convertedFile ''originalName'',
                      res_fileId = get_prop convertedFile ''fileId'',
                      res_filename = get_prop convertedFile ''filename'',
                      res_contentType = ''image/png'',
                      res_pageNumber = get_prop convertedFile ''pageNumber''\<rparr> # rs)))"

text \<open>The inner \<open>try\<close> of the PDF branch: the call of the service and the reading of its answer.\<close>

definition flask_convert :: "upload_env \<Rightarrow> string \<Rightarrow> js_error + upload_result list" where
  "flask_convert env actualOriginalName =
     (case fetch_flask env of
        Inl e \<Rightarrow> Inl e
      | Inr r \<Rightarrow>
          if \<not> resp_ok r then Inl (Error (flask_failure_message actualOriginalName r))
          else (case resp_json r of
                  None \<Rightarrow> Inl (SyntaxError ''Unexpected token in JSON'')
                | Some flaskResult \<Rightarrow>
                    if flaskResult = JNull
                    then Inl (TypeError ''Cannot read properties of null (reading 'converted_files')'')
                    else (case get_prop flaskResult ''converted_files'' of
                            Some (JArr converted_files) \<Rightarrow> convert_files converted_files
                          | _ \<Rightarrow>
                              Inl (Error (''Flask server (for PDF '' @ sq @ actualOriginalName
                                     @ sq @ '') did not return expected '' @ dq
                                     @ ''converted_files'' @ dq @ '' array.'')))))"

text \<open>The \<open>catch\<close> of the PDF branch wraps whatever was thrown.\<close>

definition pdf_error_message :: "string \<Rightarrow> string \<Rightarrow> js_error \<Rightarrow> string" where
  "pdf_error_message url actualOriginalName e =
     ''Failed PDF processing for '' @ sq @ actualOriginalName @ sq @ ''.''
     @ (if err_message e \<noteq> [] \<and> includes_str (toLowerCase (err_message e)) ''fetch failed''
        then '' The Next.js server could not connect to the Flask server at '' @ url
             @ ''/api/convert-pdf-to-images. Please ensure the Flask server is running, accessible, and the URL is correct. Original error: ''
             @ err_message e
        else '' Error during communication with or processing by Flask server: ''
             @ err_message e)"

definition process_pdf ::
  "string \<Rightarrow> upload_env \<Rightarrow> string \<Rightarrow> js_error + upload_result list" where
  "process_pdf url env actualOriginalName =
     (case flask_convert env actualOriginalName of
        Inr results \<Rightarrow> Inr results
      | Inl e \<Rightarrow> Inl (Error (pdf_error_message url actualOriginalName e)))"

subsection \<open>The image branch\<close>

text \<open>
  The scratch file is piped into the bucket. On \<open>finish\<close> the bucket holds the file
  under the identifier of the upload stream, and one entry is pushed onto \<open>results\<close>;
  on any error the promise rejects and the \<open>catch\<close> wraps the message. A scratch file
  that is not there makes the read stream fail.
\<close>

definition image_error :: "string \<Rightarrow> string \<Rightarrow> js_error" where
  "image_error actualOriginalName m =
     Error (''Failed during image processing for '' @ sq @ actualOriginalName @ sq
              @ '': '' @ m)"

definition upload_image ::
  "upload_env \<Rightarrow> string \<Rightarrow> nat \<Rightarrow> string \<Rightarrow> string \<Rightarrow> string \<Rightarrow> string \<Rightarrow> world
     \<Rightarrow> (js_error + upload_result list) \<times> world" where
  "upload_image env reqId k userId actualOriginalName tempFilePath fileType w =
     (let imageFilename = userId @ ''_'' @ nat_to_string (now env k) @ ''_''
                            @ sanitize actualOriginalName;
          metadata = \<lparr>md_originalName = Some actualOriginalName,
                      md_userId = Some userId,
                      md_uploadedAt = Some (toISOString env (now env (Suc k))),
                      md_sourceContentType = Some fileType,
                      md_explicitContentType = Some fileType,
                      md_reqIdParent = Some reqId\<rparr>
      in case upload_stream env of
           UploadThrows e \<Rightarrow> (Inl (image_error actualOriginalName (err_message e)), w)
         | ReadStreamError e \<Rightarrow>
             (Inl (image_error actualOriginalName
                     (''Error reading temporary file: '' @ err_message e)), w)
         | UploadStreamError e \<Rightarrow>
             (Inl (image_error actualOriginalName
                     (''GridFS upload error: '' @ err_message e)), w)
         | UploadFinish streamId \<Rightarrow>
             (case disk w tempFilePath of
                None \<Rightarrow>
                  (Inl (image_error actualOriginalName
                          (''Error reading temporary file: ENOENT: no such file or directory, open ''
                             @ sq @ tempFilePath @ sq)), w)
              | Some content \<Rightarrow>
                  (Inr [\<lparr>res_originalName = Some (JStr actualOriginalName),
                         res_fileId = Some (JStr (toHexString streamId)),
                         res_filename = Some (JStr imageFilename),
                         res_contentType = fileType,
                         res_pageNumber = None\<rparr>],
                   w\<lparr>gridfs := (gridfs w)(streamId \<mapsto>
                        \<lparr>gf_filename = imageFilename,
                         gf_contentType = Some fileType,
                         gf_length = length content,
                         gf_metadata = Some metadata\<rparr>)\<rparr>)))"

subsection \<open>The handler\<close>

datatype upload_body =
    ErrorBody string string "string option"
  | Results "upload_result list"

definition json_error :: "nat \<Rightarrow> string \<Rightarrow> string \<Rightarrow> upload_body response" where
  "json_error st m k = \<lparr>status = st, headers = [], body = ErrorBody m k None\<rparr>"

definition created :: "upload_result list \<Rightarrow> upload_body response" where
  "created results = \<lparr>status = 201, headers = [], body = Results results\<rparr>"

text \<open>The response of the outer \<open>catch\<close> block.\<close>

definition server_error :: "js_error \<Rightarrow> string \<Rightarrow> upload_body response" where
  "server_error caughtError reqId =
     \<lparr>status = 500, headers = [],
      body = ErrorBody (''Server Error: '' @ err_message caughtError)
               (if err_name caughtError \<noteq> [] then err_name caughtError
                else ''UNKNOWN_PROCESSING_ERROR'')
               (Some reqId)\<rparr>"

text \<open>\<open>Array.isArray(userIdField) ? userIdField[0] : userIdField\<close> on \<open>fields.userId\<close>.\<close>

definition userId_of :: "(string \<times> field_value) list \<Rightarrow> string option" where
  "userId_of flds =
     (case map_of flds ''userId'' of
        None \<Rightarrow> None
      | Some (Single s) \<Rightarrow> Some s
      | Some (Multi vs) \<Rightarrow> (case vs of [] \<Rightarrow> None | v # _ \<Rightarrow> Some v))"

text \<open>\<open>fsPromises.readFile\<close> of the scratch file in the PDF branch.\<close>

definition readFile :: "upload_env \<Rightarrow> filesystem \<Rightarrow> string \<Rightarrow> js_error + bytes" where
  "readFile env dsk p =
     (case readFile_error env p of
        Some e \<Rightarrow> Inl e
      | None \<Rightarrow>
          (case dsk p of
             None \<Rightarrow> Inl (Error (''ENOENT: no such file or directory, open '' @ sq @ p @ sq))
           | Some content \<Rightarrow> Inr content))"

text \<open>
  The part of the \<open>try\<close> block after the form is parsed: the checks of \<open>userId\<close> and of
  the \<open>file\<close> entry, then the dispatch on the declared content type. \<open>Inl\<close> is a throw
  into the outer \<open>catch\<close>, \<open>Inr\<close> a response returned.
\<close>

definition handle_form ::
  "string \<Rightarrow> upload_env \<Rightarrow> string \<Rightarrow> nat \<Rightarrow> CustomParsedForm \<Rightarrow> world
     \<Rightarrow> (js_error + upload_body response) \<times> world" where
  "handle_form url env reqId k form w =
     (case userId_of (form_fields form) of
        None \<Rightarrow> (Inr (json_error 400 ''Missing userId in form data.'' ''MISSING_USER_ID''), w)
      | Some userId \<Rightarrow>
          if userId = []
          then (Inr (json_error 400 ''Missing userId in form data.'' ''MISSING_USER_ID''), w)
          else (case map_of (form_files form) ''file'' of
                  None \<Rightarrow>
                    (Inr (json_error 400 ''No file uploaded or file path missing.''
                            ''NO_FILE_UPLOADED''), w)
                | Some uploadedFileEntry \<Rightarrow>
                    if filepath uploadedFileEntry = []
                    then (Inr (json_error 400 ''No file uploaded or file path missing.''
                                 ''NO_FILE_UPLOADED''), w)
                    else
                      (let actualOriginalName =
                             (case originalFilename uploadedFileEntry of
                                None \<Rightarrow> ''unknown_file''
                              | Some n \<Rightarrow> if n = [] then ''unknown_file'' else n);
                           tempFilePath = filepath uploadedFileEntry;
                           fileType = mimetype uploadedFileEntry
                       in if fileType = Some SUPPORTED_PDF_TYPE
                          then (case readFile env (disk w) tempFilePath of
                                  Inl e \<Rightarrow> (Inl e, w)
                                | Inr fileBuffer \<Rightarrow>
                                    (case process_pdf url env actualOriginalName of
                                       Inl e \<Rightarrow> (Inl e, w)
                                     | Inr results \<Rightarrow> (Inr (created results), w)))
                          else (case fileType of
                                  None \<Rightarrow>
                                    (Inr (json_error 415
                                            ''Unsupported file type: null. Please upload a supported image or PDF file.''
                                            ''UNSUPPORTED_FILE_TYPE''), w)
                                | Some t \<Rightarrow>
                                    if t \<noteq> [] \<and> t \<in> set SUPPORTED_IMAGE_TYPES
                                    then (case upload_image env reqId k userId actualOriginalName
                                                 tempFilePath t w of
                                            (Inl e, w') \<Rightarrow> (Inl e, w')
                                          | (Inr results, w') \<Rightarrow> (Inr (created results), w'))
                                    else (Inr (json_error 415
                                                 (''Unsupported file type: '' @ t
                                                    @ ''. Please upload a supported image or PDF file.'')
                                                 ''UNSUPPORTED_FILE_TYPE''), w)))))"

text \<open>
  \<open>Object.values(files).forEach(...)\<close>: the paths the \<open>finally\<close> block will delete.
\<close>

definition tracked_paths :: "(string \<times> CustomUploadedFile) list \<Rightarrow> string list" where
  "tracked_paths fls = filter (\<lambda>p. p \<noteq> []) (map (\<lambda>kv. filepath (snd kv)) fls)"

definition entry_count :: "request \<Rightarrow> nat" where
  "entry_count req = (case req of Inl e \<Rightarrow> 0 | Inr entries \<Rightarrow> length entries)"

text \<open>
  The \<open>try\<close> block: what it returns or throws, the value of \<open>tempFilePathsToDelete\<close>
  when it is left, and the world it leaves.
\<close>

definition POST_try ::
  "string \<Rightarrow> upload_env \<Rightarrow> string \<Rightarrow> request \<Rightarrow> world
     \<Rightarrow> (js_error + upload_body response) \<times> string list \<times> world" where
  "POST_try url env reqId req w =
     (case connectToDb env of
        Inl dbError \<Rightarrow> (Inl dbError, [], w)
      | Inr None \<Rightarrow>
          (Inl (Error ''Server error: Database or GridFS bucket not initialized.''), [], w)
      | Inr (Some dbConnection) \<Rightarrow>
          if \<not> has_bucket dbConnection \<or> \<not> has_db dbConnection
          then (Inl (Error ''Server error: Database or GridFS bucket not initialized.''), [], w)
          else (case parseFormRevised env reqId req (disk w) of
                  (Inl formError, dsk) \<Rightarrow>
                    (Inl (Error (''Failed to parse form data: '' @ err_message formError)), [],
                     w\<lparr>disk := dsk\<rparr>)
                | (Inr parsedForm, dsk) \<Rightarrow>
                    (case handle_form url env reqId (entry_count req) parsedForm
                            (w\<lparr>disk := dsk\<rparr>) of
                       (r, w') \<Rightarrow> (r, tracked_paths (form_files parsedForm), w'))))"

text \<open>
  The \<open>finally\<close> block: each recorded path that exists is unlinked; an unlink that throws
  is logged and the loop goes on.
\<close>

fun cleanup :: "upload_env \<Rightarrow> string list \<Rightarrow> filesystem \<Rightarrow> filesystem" where
  "cleanup env [] dsk = dsk"
| "cleanup env (filePath # rest) dsk =
     cleanup env rest
       (if dsk filePath \<noteq> None
        then (case unlink_error env filePath of
                Some cleanupErr \<Rightarrow> dsk
              | None \<Rightarrow> dsk(filePath := None))
        else dsk)"

text \<open>
  \<open>POST\<close>, given the value of the environment variable behind \<open>FLASK_SERVER_URL\<close>
  (\<open>None\<close> when unset), the environment, the request identifier and the request, from a
  world to the response and the world left behind.
\<close>

definition POST ::
  "string option \<Rightarrow> upload_env \<Rightarrow> string \<Rightarrow> request \<Rightarrow> world
     \<Rightarrow> upload_body response \<times> world" where
  "POST FLASK_SERVER_URL env reqId req w =
     (case FLASK_SERVER_URL of
        None \<Rightarrow>
          (json_error 500 ''Server configuration error: Flask server URL not set.''
             ''FLASK_URL_MISSING'', w)
      | Some url \<Rightarrow>
          if url = []
          then (json_error 500 ''Server configuration error: Flask server URL not set.''
                  ''FLASK_URL_MISSING'', w)
          else (case POST_try url env reqId req w of
                  (r, tempFilePathsToDelete, w1) \<Rightarrow>
                    ((case r of
                        Inr resp \<Rightarrow> resp
                      | Inl caughtError \<Rightarrow> server_error caughtError reqId),
                     w1\<lparr>disk := cleanup env tempFilePathsToDelete (disk w1)\<rparr>)))"

section \<open>The auth/profile state adapter\<close>

text \<open>
  Of the provider's \<open>User\<close> only \<open>uid\<close> is read. The profile type comes from a module
  that is not at hand and is a type parameter.
\<close>

record firebase_user =
  uid :: string

text \<open>
  What the document store sees of the component: the calls of \<open>onSnapshot\<close> (a listener
  is attached and gets a handle; calling the returned function detaches that handle),
  in the order they are made.
\<close>

datatype listener_event = Attached nat string | Detached nat

fun apply_listener_event :: "nat list \<Rightarrow> listener_event \<Rightarrow> nat list" where
  "apply_listener_event hs (Attached h u) = hs @ [h]"
| "apply_listener_event hs (Detached h) = removeAll h hs"

text \<open>The listeners that are attached after a sequence of calls.\<close>

definition active_listeners :: "listener_event list \<Rightarrow> nat list" where
  "active_listeners log = foldl apply_listener_event [] log"

text \<open>
  The React state of \<open>AuthProvider\<close>, the variable \<open>profileListenerUnsubscribe\<close> of the
  effect's closure (the handle of the listener whose unsubscribe function it holds),
  whether the auth listener is registered, the calls made to the document store so far,
  and the next unused handle.
\<close>

record 'p auth_state =
  auth_user :: "firebase_user option"
  auth_userProfile :: "'p option"
  auth_loading :: bool
  auth_userId :: "string option"
  profileListenerUnsubscribe :: "nat option"
  auth_subscribed :: bool
  listener_log :: "listener_event list"
  next_listener :: nat

definition initial_state :: "'p auth_state" where
  "initial_state = \<lparr>auth_user = None, auth_userProfile = None, auth_loading = True,
                    auth_userId = None, profileListenerUnsubscribe = None,
                    auth_subscribed = False, listener_log = [], next_listener = 0\<rparr>"

text \<open>The first statement of the callback: the previous profile listener is cleaned up.\<close>

definition detach_previous :: "'p auth_state \<Rightarrow> 'p auth_state" where
  "detach_previous s =
     (case profileListenerUnsubscribe s of
        None \<Rightarrow> s
      | Some h \<Rightarrow> s\<lparr>listener_log := listener_log s @ [Detached h],
                    profileListenerUnsubscribe := None\<rparr>)"

text \<open>The callback given to \<open>onAuthStateChanged\<close>; its body has no \<open>await\<close> and runs in one go.\<close>

definition authStateChanged :: "firebase_user option \<Rightarrow> 'p auth_state \<Rightarrow> 'p auth_state" where
  "authStateChanged firebaseUser s =
     (let s1 = detach_previous s;
          s2 = s1\<lparr>auth_user := firebaseUser,
                  auth_userId := map_option uid firebaseUser,
                  auth_userProfile := None\<rparr>
      in case firebaseUser of
           Some u \<Rightarrow>
             s2\<lparr>auth_loading := True,
                listener_log := listener_log s2 @ [Attached (next_listener s2) (uid u)],
                profileListenerUnsubscribe := Some (next_listener s2),
                next_listener := Suc (next_listener s2)\<rparr>
         | None \<Rightarrow> s2\<lparr>auth_userProfile := None, auth_loading := False\<rparr>)"

text \<open>
  Modelled from the spec: \<open>onAuthStateChanged\<close> of \<open>@/lib/firebase/auth\<close>, which is not
  among the sources. It "subscribes to provider auth-state changes": the callback is
  called on each change until the returned function is called.

  What can happen to the component: the effect runs (mount), the provider reports an
  auth state, the document store delivers a snapshot (the profile, or \<open>None\<close> when the
  document does not exist) or an error to a listener, the effect's cleanup runs
  (unmount). The effect runs once per mount, and callbacks of listeners that are not
  attached are not called.
\<close>

datatype 'p auth_event =
    Mount
  | AuthStateChanged "firebase_user option"
  | Snapshot nat "'p option"
  | SnapshotError nat
  | Unmount

fun auth_step :: "'p auth_state \<Rightarrow> 'p auth_event \<Rightarrow> 'p auth_state" where
  "auth_step s Mount =
     (if auth_subscribed s then s
      else s\<lparr>auth_loading := True, profileListenerUnsubscribe := None, auth_subscribed := True\<rparr>)"
| "auth_step s (AuthStateChanged firebaseUser) =
     (if auth_subscribed s then authStateChanged firebaseUser s else s)"
| "auth_step s (Snapshot h docSnap) =
     (if h \<in> set (active_listeners (listener_log s))
      then s\<lparr>auth_userProfile := docSnap, auth_loading := False\<rparr> else s)"
| "auth_step s (SnapshotError h) =
     (if h \<in> set (active_listeners (listener_log s))
      then s\<lparr>auth_userProfile := None, auth_loading := False\<rparr> else s)"
| "auth_step s Unmount =
     (if auth_subscribed s
      then (case profileListenerUnsubscribe s of
              None \<Rightarrow> s\<lparr>auth_subscribed := False\<rparr>
            | Some h \<Rightarrow> s\<lparr>auth_subscribed := False,
                          listener_log := listener_log s @ [Detached h]\<rparr>)
      else s)"

definition auth_run :: "'p auth_event list \<Rightarrow> 'p auth_state" where
  "auth_run evs = foldl auth_step initial_state evs"

subsection \<open>The invariant of the listener swap\<close>

text \<open>
  Two properties of a sequence of calls to the document store: after each prefix at most
  one listener is attached, and every attachment happens when none is. Together with the
  agreement between the attached listeners and the closure variable, and the fact that
  the handle in the closure variable is older than the next one to be handed out, they
  form the invariant of the component.
\<close>

definition at_most_one :: "listener_event list \<Rightarrow> bool" where
  "at_most_one log = (\<forall>n. length (active_listeners (take n log)) \<le> 1)"

definition attach_after_detach :: "listener_event list \<Rightarrow> bool" where
  "attach_after_detach log =
     (\<forall>i h u. i < length log \<and> log ! i = Attached h u \<longrightarrow> active_listeners (take i log) = [])"

definition expected_active :: "'p auth_state \<Rightarrow> nat list" where
  "expected_active s =
     (if auth_subscribed s then (case profileListenerUnsubscribe s of None \<Rightarrow> [] | Some h \<Rightarrow> [h])
      else [])"

definition handle_fresh :: "'p auth_state \<Rightarrow> bool" where
  "handle_fresh s = (\<forall>h. profileListenerUnsubscribe s = Some h \<longrightarrow> h < next_listener s)"

definition auth_inv :: "'p auth_state \<Rightarrow> bool" where
  "auth_inv s = (at_most_one (listener_log s) \<and> attach_after_detach (listener_log s)
                 \<and> active_listeners (listener_log s) = expected_active s
                 \<and> handle_fresh s)"

section \<open>Reading a request\<close>

text \<open>
  What a list of form entries holds, read off the entries themselves: the text values
  and the files sent under a name, and the names of all file entries. The file the
  handler works on is the last one sent under \<open>file\<close>.
\<close>

fun text_values :: "string \<Rightarrow> (string \<times> form_value) list \<Rightarrow> string list" where
  "text_values key [] = []"
| "text_values key ((k, FileValue f) # rest) = text_values key rest"
| "text_values key ((k, TextValue v) # rest) =
     (if k = key then v # text_values key rest else text_values key rest)"

fun file_entries :: "string \<Rightarrow> (string \<times> form_value) list \<Rightarrow> form_file list" where
  "file_entries key [] = []"
| "file_entries key ((k, FileValue f) # rest) =
     (if k = key then f # file_entries key rest else file_entries key rest)"
| "file_entries key ((k, TextValue v) # rest) = file_entries key rest"

fun file_keys :: "(string \<times> form_value) list \<Rightarrow> string list" where
  "file_keys [] = []"
| "file_keys ((k, FileValue f) # rest) = k # file_keys rest"
| "file_keys ((k, TextValue v) # rest) = file_keys rest"

definition uploaded_file :: "(string \<times> form_value) list \<Rightarrow> form_file option" where
  "uploaded_file entries =
     (case file_entries ''file'' entries of [] \<Rightarrow> None | f # fs \<Rightarrow> Some (last (f # fs)))"

text \<open>
  The effect of one more text value on the entry of \<open>fields\<close> under its name, and two
  shapes of such an entry: \<open>settled\<close> when its first value is non-empty, \<open>fresh_state\<close>
  when nothing or only an empty string has been stored.
\<close>

definition field_step :: "field_value option \<Rightarrow> string \<Rightarrow> field_value option" where
  "field_step st v =
     (case st of
        Some (Multi vs) \<Rightarrow> Some (Multi (vs @ [v]))
      | Some (Single s) \<Rightarrow> if s \<noteq> [] then Some (Multi [s, v]) else Some (Single v)
      | None \<Rightarrow> Some (Single v))"

definition settled :: "field_value option \<Rightarrow> bool" where
  "settled st = (case st of Some (Single s) \<Rightarrow> s \<noteq> [] | Some (Multi (s # vs)) \<Rightarrow> s \<noteq> [] | _ \<Rightarrow> False)"

definition fresh_state :: "field_value option \<Rightarrow> bool" where
  "fresh_state st = (st = None \<or> st = Some (Single []))"

definition request_file_keys :: "request \<Rightarrow> string list" where
  "request_file_keys req = (case req of Inl e \<Rightarrow> [] | Inr entries \<Rightarrow> file_keys entries)"

section \<open>Sample data for the concrete instances\<close>

definition sample_id :: string where
  "sample_id = ''507f1f77bcf86cd799439011''"

definition db_up :: db_env where
  "db_up = \<lparr>connectToDb = Inr (Some \<lparr>has_bucket = True, has_db = True\<rparr>),
            find_error = None, findOne_error = None, delete_error = None\<rparr>"

definition db_down :: db_env where
  "db_down = \<lparr>connectToDb = Inl (Error ''MongoDB connection error: server selection timed out''),
              find_error = None, findOne_error = None, delete_error = None\<rparr>"

definition alice_file :: gridfs_file where
  "alice_file = \<lparr>gf_filename = ''alice_1700000000000_cert.png'',
                  gf_contentType = Some ''image/png'', gf_length = 3,
                  gf_metadata = Some \<lparr>md_originalName = Some ''cert.png'',
                    md_userId = Some ''alice'', md_uploadedAt = Some ''2023-11-14T22:13:20.000Z'',
                    md_sourceContentType = Some ''image/png'',
                    md_explicitContentType = Some ''image/png'',
                    md_reqIdParent = Some ''k3x9q2a''\<rparr>\<rparr>"

definition alice_store :: bucket where
  "alice_store = [new_ObjectId sample_id \<mapsto> alice_file]"

definition up_env :: upload_env where
  "up_env = \<lparr>connectToDb = Inr (Some \<lparr>has_bucket = True, has_db = True\<rparr>),
     find_error = None, findOne_error = None, delete_error = None,
     tmpdir = ''/tmp'', now = (\<lambda>k. 1000 + k), toISOString = (\<lambda>t. ''2023-11-14T22:13:20.000Z''),
     writeFile_error = (\<lambda>p. None), readFile_error = (\<lambda>p. None), unlink_error = (\<lambda>p. None),
     fetch_flask = Inr \<lparr>resp_ok = True, resp_status = 200, resp_text = ''{...}'',
       resp_json = Some (JObj [(''converted_files'',
         JArr [JObj [(''originalName'', JStr ''a.pdf''), (''fileId'', JStr sample_id),
                     (''filename'', JStr ''a_page_1.png''), (''pageNumber'', JNum 1)]])])\<rparr>,
     upload_stream = UploadFinish 0x507f1f77bcf86cd799439011\<rparr>"

definition png_file :: form_file where
  "png_file = \<lparr>file_name = ''cert.png'', file_type = ''image/png'', file_bytes = [137, 80, 78]\<rparr>"

definition world0 :: world where
  "world0 = \<lparr>disk = Map.empty, gridfs = Map.empty\<rparr>"

definition txt_file :: form_file where
  "txt_file = \<lparr>file_name = ''notes.txt'', file_type = ''text/plain'', file_bytes = [104, 105]\<rparr>"

definition pdf_file :: form_file where
  "pdf_file = \<lparr>file_name = ''a.pdf'', file_type = ''application/pdf'', file_bytes = [37, 80, 68, 70]\<rparr>"

definition entries_image :: "(string \<times> form_value) list" where
  "entries_image = [(''userId'', TextValue ''alice''), (''file'', FileValue png_file)]"

definition entries_text :: "(string \<times> form_value) list" where
  "entries_text = [(''userId'', TextValue ''alice''), (''file'', FileValue txt_file)]"

definition entries_pdf :: "(string \<times> form_value) list" where
  "entries_pdf = [(''userId'', TextValue ''alice''), (''file'', FileValue pdf_file)]"

definition entries_two_files :: "(string \<times> form_value) list" where
  "entries_two_files = [(''userId'', TextValue ''alice''), (''file'', FileValue txt_file),
                        (''file'', FileValue png_file)]"

definition flask_url :: string where
  "flask_url = ''http://flask:5000''"

definition unlink_fails_env :: upload_env where
  "unlink_fails_env = up_env\<lparr>unlink_error := (\<lambda>p. Some (Error ''EPERM: operation not permitted, unlink''))\<rparr>"

definition second_write_fails_env :: upload_env where
  "second_write_fails_env = up_env\<lparr>writeFile_error :=
     (\<lambda>p. if p = ''/tmp/nextjs_temp_k3x9q2a_1002_cert.png''
          then Some (Error ''ENOSPC: no space left on device, write'') else None)\<rparr>"

definition sample_events :: "string auth_event list" where
  "sample_events = [Mount, AuthStateChanged (Some \<lparr>uid = ''alice''\<rparr>), Snapshot 0 (Some ''Alice A.''),
                    AuthStateChanged (Some \<lparr>uid = ''bob''\<rparr>), Snapshot 0 (Some ''stale''),
                    AuthStateChanged None, Unmount]"

definition sample_signed_in_events :: "string auth_event list" where
  "sample_signed_in_events = [Mount, AuthStateChanged (Some \<lparr>uid = ''alice''\<rparr>)]"

section \<open>Properties of the by-id route\<close>

lemma sample_id_valid: "ObjectId_isValid sample_id"
  by (simp add: ObjectId_isValid_def sample_id_def is_hex_char_def)

lemma not_an_id_invalid: "\<not> ObjectId_isValid ''not-an-id''"
  by (simp add: ObjectId_isValid_def)

lemma alice_owner: "owner_of alice_file = Some ''alice''"
  by (simp add: owner_of_def alice_file_def)

text \<open>
  C6, as the code has it. A missing, empty or malformed \<open>fileId\<close> is answered with 400
  before anything else happens. A well-formed identifier that no stored object carries is
  answered with 404 once the connection to the database is there, it has its bucket, and
  the lookup itself does not throw; a failing connection or lookup ends in the
  \<open>catch\<close> block instead.
\<close>

theorem GET_malformed_400_absent_404:
  "(fileId = None \<or> fileId = Some [] \<or> (\<exists>s. fileId = Some s \<and> \<not> ObjectId_isValid s)
      \<longrightarrow> status (GET env store fileId) = 400)
   \<and> (fileId = Some s \<and> ObjectId_isValid s \<and> store (new_ObjectId s) = None
        \<and> connectToDb env = Inr (Some conn) \<and> has_bucket conn \<and> find_error env = None
      \<longrightarrow> status (GET env store fileId) = 404)"
  by (auto simp: GET_def json_message_def ObjectId_isValid_def)

theorem GET_malformed_400_absent_404_witness:
  "status (GET db_up Map.empty (Some ''not-an-id'')) = 400
   \<and> status (GET db_up Map.empty (Some sample_id)) = 404"
  using GET_malformed_400_absent_404
          [of "Some ''not-an-id''" db_up Map.empty sample_id "\<lparr>has_bucket = True, has_db = True\<rparr>"]
        GET_malformed_400_absent_404
          [of "Some sample_id" db_up Map.empty sample_id "\<lparr>has_bucket = True, has_db = True\<rparr>"]
        sample_id_valid not_an_id_invalid
  by (simp add: db_up_def)

text \<open>
  C6 as the claim words it (404 for every well-formed identifier without a stored
  object) fails when the database cannot be reached: the \<open>catch\<close> block answers 500.
\<close>

theorem GET_absent_id_database_down_500:
  "ObjectId_isValid sample_id
   \<and> (Map.empty :: bucket) (new_ObjectId sample_id) = None
   \<and> status (GET db_down Map.empty (Some sample_id)) = 500"
  using sample_id_valid
  by (simp add: GET_def db_down_def GET_catch_def Error_def) (simp add: sample_id_def)

text \<open>
  C10: in \<open>DELETE\<close> the check of the \<open>userId\<close> query parameter comes first. Without the
  parameter (or with an empty one) the answer is 401 and the bucket is untouched, whatever
  the \<open>fileId\<close> and the state of the database; and an answer of 400 is only ever given
  to a request that does supply a \<open>userId\<close>.
\<close>

theorem DELETE_userId_check_first:
  "(userId = None \<or> userId = Some [] \<longrightarrow>
      status (fst (DELETE env store userId fileId)) = 401
      \<and> snd (DELETE env store userId fileId) = store)
   \<and> (status (fst (DELETE env store userId fileId)) = 400 \<longrightarrow>
      (\<exists>u. userId = Some u \<and> u \<noteq> []))"
  by (auto simp: DELETE_def json_message_def truthy_def DELETE_catch_def
           split: if_splits option.splits sum.splits)

theorem DELETE_userId_check_first_witness:
  "status (fst (DELETE db_down alice_store None (Some ''not-an-id''))) = 401
   \<and> status (fst (DELETE db_down alice_store None (Some sample_id))) = 401
   \<and> status (fst (DELETE db_up alice_store (Some ''bob'') (Some ''not-an-id''))) = 400"
  using DELETE_userId_check_first [of None db_down alice_store "Some ''not-an-id''"]
        DELETE_userId_check_first [of None db_down alice_store "Some sample_id"]
        not_an_id_invalid
  by (simp add: DELETE_def truthy_def json_message_def)

text \<open>
  C2, as the code has it. When the stored object's owner differs from the \<open>userId\<close> of
  the request, \<open>DELETE\<close> never changes the bucket. The answer is 403 when the request
  carries a non-empty \<open>userId\<close>, the connection to the database is there with its \<open>db\<close>
  handle, and the metadata lookup does not throw.
\<close>

theorem DELETE_owner_mismatch_403_intact:
  "fileId = Some s \<and> ObjectId_isValid s \<and> store (new_ObjectId s) = Some f
   \<and> owner_of f \<noteq> userId \<longrightarrow>
     snd (DELETE env store userId fileId) = store
     \<and> (truthy userId \<and> connectToDb env = Inr (Some conn) \<and> has_db conn
          \<and> findOne_error env = None
        \<longrightarrow> status (fst (DELETE env store userId fileId)) = 403)"
  by (auto simp: DELETE_def json_message_def ObjectId_isValid_def
           split: option.splits sum.splits)

theorem DELETE_owner_mismatch_403_intact_witness:
  "snd (DELETE db_up alice_store (Some ''bob'') (Some sample_id)) = alice_store
   \<and> status (fst (DELETE db_up alice_store (Some ''bob'') (Some sample_id))) = 403"
  using DELETE_owner_mismatch_403_intact
          [of "Some sample_id" sample_id alice_store alice_file "Some ''bob''" db_up
              "\<lparr>has_bucket = True, has_db = True\<rparr>"]
        sample_id_valid alice_owner
  by (simp add: alice_store_def db_up_def truthy_def)

text \<open>
  C2 as the claim words it (403 for every request on an existing object with another
  owner's \<open>userId\<close>) fails when the database cannot be reached: the object stays, but
  the answer is 500.
\<close>

theorem DELETE_owner_mismatch_database_down_500:
  "ObjectId_isValid sample_id
   \<and> alice_store (new_ObjectId sample_id) = Some alice_file
   \<and> owner_of alice_file \<noteq> Some ''bob''
   \<and> status (fst (DELETE db_down alice_store (Some ''bob'') (Some sample_id))) = 500"
  using sample_id_valid alice_owner
  by (simp add: DELETE_def db_down_def DELETE_catch_def Error_def truthy_def alice_store_def)
     (simp add: sample_id_def)

section \<open>Properties of the upload route\<close>

subsection \<open>The parser\<close>

lemma parse_entries_succeeds:
  "\<forall>p. writeFile_error env p = None \<Longrightarrow>
   \<exists>form dsk'. parse_entries env reqId i entries dsk acc = (Inr form, dsk')"
  by (induction env reqId i entries dsk acc rule: parse_entries.induct) simp_all

lemma temp_path_nonempty: "temp_path env reqId i f \<noteq> []"
  by (simp add: temp_path_def)

lemma map_of_set_file:
  "key \<noteq> ''__proto__'' \<Longrightarrow> map_of (set_file fls k f) key = (if k = key then Some f else map_of fls key)"
  by (auto simp: set_file_def update_conv')

lemma parse_entries_file:
  "parse_entries env reqId i entries dsk acc = (Inr form, dsk') \<Longrightarrow> key \<noteq> ''__proto__'' \<Longrightarrow>
   (case file_entries key entries of
      [] \<Rightarrow> map_of (form_files form) key = map_of (form_files acc) key
    | f # fs \<Rightarrow> (\<exists>cf. map_of (form_files form) key = Some cf \<and> filepath cf \<noteq> []
                  \<and> originalFilename cf = Some (file_name (last (f # fs)))
                  \<and> mimetype cf = Some (file_type (last (f # fs)))))"
proof (induction env reqId i entries dsk acc rule: parse_entries.induct)
  case (1 env reqId i dsk acc)
  then show ?case by simp
next
  case (2 env reqId i k f rest dsk acc)
  from "2.prems"(1) have w: "writeFile_error env (temp_path env reqId i f) = None"
    by (simp split: option.splits)
  let ?acc = "acc\<lparr>form_files := set_file (form_files acc) k
                   \<lparr>filepath = temp_path env reqId i f,
                    originalFilename = Some (file_name f),
                    mimetype = Some (file_type f),
                    size_bytes = length (file_bytes f)\<rparr>\<rparr>"
  from "2.prems"(1) w have p: "parse_entries env reqId (Suc i) rest
            (dsk(temp_path env reqId i f \<mapsto> file_bytes f)) ?acc = (Inr form, dsk')"
    by simp
  note ih = "2.IH" [OF w p "2.prems"(2)]
  show ?case
  proof (cases "file_entries key rest")
    case Nil
    with ih "2.prems"(2) show ?thesis
      by (simp add: map_of_set_file temp_path_nonempty)
  next
    case (Cons g gs)
    with ih show ?thesis by simp
  qed
next
  case (3 env reqId i k v rest dsk acc)
  then show ?case by (auto split: list.splits)
qed

lemma map_of_add_field:
  "map_of (add_field flds k v) key =
     (if k = key then field_step (map_of flds k) v else map_of flds key)"
  by (auto simp: add_field_def field_step_def update_conv' split: option.splits field_value.splits)

lemma parse_entries_field:
  "parse_entries env reqId i entries dsk acc = (Inr form, dsk') \<Longrightarrow>
   map_of (form_fields form) key = foldl field_step (map_of (form_fields acc) key) (text_values key entries)"
proof (induction env reqId i entries dsk acc rule: parse_entries.induct)
  case (1 env reqId i dsk acc)
  then show ?case by simp
next
  case (2 env reqId i k f rest dsk acc)
  from "2.prems"(1) have w: "writeFile_error env (temp_path env reqId i f) = None"
    by (simp split: option.splits)
  from "2.prems"(1) w have p: "parse_entries env reqId (Suc i) rest
            (dsk(temp_path env reqId i f \<mapsto> file_bytes f))
            (acc\<lparr>form_files := set_file (form_files acc) k
                   \<lparr>filepath = temp_path env reqId i f,
                    originalFilename = Some (file_name f),
                    mimetype = Some (file_type f),
                    size_bytes = length (file_bytes f)\<rparr>\<rparr>) = (Inr form, dsk')"
    by simp
  show ?case using "2.IH" [OF w p] by simp
next
  case (3 env reqId i k v rest dsk acc)
  then show ?case by (simp add: map_of_add_field)
qed

lemma settled_step: "settled st \<Longrightarrow> settled (field_step st v)"
  by (auto simp: settled_def field_step_def split: option.splits field_value.splits list.splits)

lemma settled_foldl: "settled st \<Longrightarrow> settled (foldl field_step st vs)"
  by (induction vs arbitrary: st) (simp_all add: settled_step)

lemma fresh_foldl:
  "fresh_state st \<Longrightarrow> \<exists>u \<in> set vs. u \<noteq> [] \<Longrightarrow> settled (foldl field_step st vs)"
proof (induction vs arbitrary: st)
  case Nil
  then show ?case by simp
next
  case (Cons v vs)
  show ?case
  proof (cases "v = []")
    case True
    with Cons.prems have "fresh_state (field_step st v)" "\<exists>u \<in> set vs. u \<noteq> []"
      by (auto simp: fresh_state_def field_step_def)
    then show ?thesis using Cons.IH by simp
  next
    case False
    with Cons.prems(1) have "settled (field_step st v)"
      by (auto simp: fresh_state_def field_step_def settled_def)
    then show ?thesis by (simp add: settled_foldl)
  qed
qed

lemma userId_of_settled:
  "settled (map_of flds ''userId'') \<Longrightarrow> \<exists>u. userId_of flds = Some u \<and> u \<noteq> []"
  by (auto simp: settled_def userId_of_def split: option.splits field_value.splits list.splits)

lemma parse_entries_userId_present:
  assumes "parse_entries env reqId i entries dsk \<lparr>form_fields = [], form_files = []\<rparr> = (Inr form, dsk')"
    and "\<exists>u \<in> set (text_values ''userId'' entries). u \<noteq> []"
  shows "\<exists>u. userId_of (form_fields form) = Some u \<and> u \<noteq> []"
proof -
  have "settled (map_of (form_fields form) ''userId'')"
    using parse_entries_field [OF assms(1), of "''userId''"] fresh_foldl [OF _ assms(2), of None]
    by (simp add: fresh_state_def)
  then show ?thesis by (rule userId_of_settled)
qed

lemma parse_entries_userId_absent:
  assumes "parse_entries env reqId i entries dsk \<lparr>form_fields = [], form_files = []\<rparr> = (Inr form, dsk')"
    and "text_values ''userId'' entries = []"
  shows "userId_of (form_fields form) = None"
  using parse_entries_field [OF assms(1), of "''userId''"] assms(2)
  by (simp add: userId_of_def)

lemma cleanup_all:
  "\<forall>p. unlink_error env p = None \<Longrightarrow>
   cleanup env ps dsk = (\<lambda>p. if p \<in> set ps then None else dsk p)"
proof (induction ps arbitrary: dsk)
  case Nil
  then show ?case by simp
next
  case (Cons a ps)
  then show ?case by (auto simp: fun_eq_iff)
qed

lemma upload_image_disk: "upload_image env reqId k u n p t w = (r, w') \<Longrightarrow> disk w' = disk w"
  by (auto simp: upload_image_def Let_def split: upload_outcome.splits option.splits)

lemma handle_form_disk: "handle_form url env reqId k form w = (r, w') \<Longrightarrow> disk w' = disk w"
  by (auto simp: handle_form_def Let_def split: option.splits sum.splits prod.splits if_splits
           dest: upload_image_disk)


lemma update_fresh: "k \<notin> fst ` set al \<Longrightarrow> AList.update k v al = al @ [(k, v)]"
  by (induction al) auto

lemma tracked_set_file:
  "k \<noteq> ''__proto__'' \<Longrightarrow> k \<notin> fst ` set fls \<Longrightarrow> filepath cf \<noteq> [] \<Longrightarrow>
   set (tracked_paths (set_file fls k cf)) = insert (filepath cf) (set (tracked_paths fls))"
  by (simp add: set_file_def update_fresh tracked_paths_def)

lemma keys_set_file: "fst ` set (set_file fls k cf) \<subseteq> insert k (fst ` set fls)"
  by (auto simp: set_file_def dom_update)

lemma parse_entries_tracked:
  "parse_entries env reqId i entries dsk acc = (Inr form, dsk') \<Longrightarrow>
   distinct (file_keys entries) \<Longrightarrow> ''__proto__'' \<notin> set (file_keys entries) \<Longrightarrow>
   set (file_keys entries) \<inter> fst ` set (form_files acc) = {} \<Longrightarrow>
   set (tracked_paths (form_files acc)) \<subseteq> set (tracked_paths (form_files form))
   \<and> (\<forall>p. dsk' p = dsk p \<or> p \<in> set (tracked_paths (form_files form)))"
proof (induction env reqId i entries dsk acc rule: parse_entries.induct)
  case (1 env reqId i dsk acc)
  then show ?case by simp
next
  case (2 env reqId i k f rest dsk acc)
  let ?tp = "temp_path env reqId i f"
  let ?cf = "\<lparr>filepath = ?tp, originalFilename = Some (file_name f),
              mimetype = Some (file_type f), size_bytes = length (file_bytes f)\<rparr>"
  let ?acc = "acc\<lparr>form_files := set_file (form_files acc) k ?cf\<rparr>"
  from "2.prems"(1) have w: "writeFile_error env ?tp = None"
    by (simp split: option.splits)
  from "2.prems"(1) w have p: "parse_entries env reqId (Suc i) rest
            (dsk(?tp \<mapsto> file_bytes f)) ?acc = (Inr form, dsk')"
    by simp
  from "2.prems" have k: "k \<noteq> ''__proto__''" "k \<notin> fst ` set (form_files acc)"
    and d: "distinct (file_keys rest)" "''__proto__'' \<notin> set (file_keys rest)"
    and knr: "k \<notin> set (file_keys rest)"
    and disj: "set (file_keys rest) \<inter> fst ` set (form_files acc) = {}"
    by auto
  have disj': "set (file_keys rest) \<inter> fst ` set (form_files ?acc) = {}"
    using keys_set_file [of "form_files acc" k ?cf] knr disj by auto
  note ih = "2.IH" [OF w p d disj']
  have tr: "set (tracked_paths (form_files ?acc)) = insert ?tp (set (tracked_paths (form_files acc)))"
    using tracked_set_file [OF k, of ?cf] by (simp add: temp_path_nonempty)
  from ih tr have sub: "set (tracked_paths (form_files acc)) \<subseteq> set (tracked_paths (form_files form))"
    and tp: "?tp \<in> set (tracked_paths (form_files form))"
    by auto
  have "dsk' q = dsk q \<or> q \<in> set (tracked_paths (form_files form))" for q
  proof (cases "q = ?tp")
    case True
    with tp show ?thesis by simp
  next
    case False
    from ih have "dsk' q = (dsk(?tp \<mapsto> file_bytes f)) q \<or> q \<in> set (tracked_paths (form_files form))"
      by blast
    with False show ?thesis by simp
  qed
  with sub show ?case by blast
next
  case (3 env reqId i k v rest dsk acc)
  then show ?case by simp
qed

lemma POST_try_disk:
  assumes W: "\<forall>p. writeFile_error env p = None"
    and D: "distinct (request_file_keys req)"
    and P: "''__proto__'' \<notin> set (request_file_keys req)"
    and T: "POST_try url env reqId req w = (r, paths, w1)"
  shows "\<forall>p. disk w1 p = disk w p \<or> p \<in> set paths"
proof (cases req)
  case (Inl e)
  with T show ?thesis
    by (auto simp: POST_try_def parseFormRevised_def split: sum.splits option.splits if_splits)
next
  case (Inr entries)
  from parse_entries_succeeds [OF W]
  obtain form dsk' where pe: "parse_entries env reqId 0 entries (disk w)
      \<lparr>form_fields = [], form_files = []\<rparr> = (Inr form, dsk')"
    by blast
  from D P Inr have "distinct (file_keys entries)" "''__proto__'' \<notin> set (file_keys entries)"
    by (simp_all add: request_file_keys_def)
  from parse_entries_tracked [OF pe this]
  have tr: "\<forall>p. dsk' p = disk w p \<or> p \<in> set (tracked_paths (form_files form))"
    by simp
  obtain r' w' where hf: "handle_form url env reqId (entry_count req) form (w\<lparr>disk := dsk'\<rparr>) = (r', w')"
    by (cases "handle_form url env reqId (entry_count req) form (w\<lparr>disk := dsk'\<rparr>)")
  from handle_form_disk [OF hf] have dw: "disk w' = dsk'" by simp
  from T Inr pe hf have "(w1 = w \<and> paths = []) \<or> (w1 = w' \<and> paths = tracked_paths (form_files form))"
    by (auto simp: POST_try_def parseFormRevised_def split: sum.splits option.splits if_splits)
  with tr dw show ?thesis by auto
qed

lemma POST_scratch:
  assumes W: "\<forall>p. writeFile_error env p = None"
    and U: "\<forall>p. unlink_error env p = None"
    and D: "distinct (request_file_keys req)"
    and P: "''__proto__'' \<notin> set (request_file_keys req)"
  shows "disk (snd (POST cfg env reqId req w)) \<subseteq>\<^sub>m disk w"
proof (cases "truthy cfg")
  case False
  then show ?thesis
    by (auto simp: POST_def truthy_def split: option.splits)
next
  case True
  then obtain url where cfg: "cfg = Some url" "url \<noteq> []"
    by (auto simp: truthy_def split: option.splits)
  obtain r paths w1 where T: "POST_try url env reqId req w = (r, paths, w1)"
    by (cases "POST_try url env reqId req w") auto
  from POST_try_disk [OF W D P T] have tr: "\<forall>p. disk w1 p = disk w p \<or> p \<in> set paths" .
  have "disk (snd (POST cfg env reqId req w)) = cleanup env paths (disk w1)"
    using cfg T by (simp add: POST_def)
  also have "\<dots> = (\<lambda>p. if p \<in> set paths then None else disk w1 p)"
    by (rule cleanup_all [OF U])
  finally show ?thesis using tr
    by (auto simp: map_le_def)
qed


subsection \<open>The handler\<close>

lemmas post_defs = POST_def POST_try_def parseFormRevised_def handle_form_def upload_image_def
  userId_of_def add_field_def set_file_def temp_path_def tracked_paths_def entry_count_def
  created_def json_error_def server_error_def SUPPORTED_PDF_TYPE_def SUPPORTED_IMAGE_TYPES_def
  sanitize_def safe_char_def nat_to_string.simps digit_char_def Let_def


lemma hex_digit_ok: "n < 16 \<Longrightarrow> is_hex_char (hex_digits ! n)"
  by (auto simp: numeral_eq_Suc less_Suc_eq hex_digits_def is_hex_char_def)

lemma toHexString_valid: "ObjectId_isValid (toHexString oid)"
  by (simp add: ObjectId_isValid_def toHexString_def list_all_iff hex_digit_ok)
     (simp add: hex_positions_def)

lemma hex_value_digit: "d < 16 \<Longrightarrow> hex_value (hex_digits ! d) = d"
  by (auto simp: numeral_eq_Suc less_Suc_eq hex_digits_def hex_value_def hex_table_def)

lemma hex_fold_digits:
  "foldl (\<lambda>a c. 16 * a + hex_value c) 0
     (map (\<lambda>i. hex_digits ! ((n div 16 ^ (k - Suc i)) mod 16)) [0..<k]) = n mod 16 ^ k"
proof (induction k arbitrary: n)
  case 0
  then show ?case by simp
next
  case (Suc k)
  have shift: "map (\<lambda>i. hex_digits ! ((n div 16 ^ (Suc k - Suc i)) mod 16)) [0..<k]
             = map (\<lambda>i. hex_digits ! (((n div 16) div 16 ^ (k - Suc i)) mod 16)) [0..<k]"
  proof (rule map_cong [OF refl])
    fix i assume "i \<in> set [0..<k]"
    then have "i < k" by simp
    then have "Suc k - Suc i = Suc (k - Suc i)" by simp
    then have "n div 16 ^ (Suc k - Suc i) = (n div 16) div 16 ^ (k - Suc i)"
      by (simp add: div_mult2_eq)
    then show "hex_digits ! ((n div 16 ^ (Suc k - Suc i)) mod 16)
             = hex_digits ! (((n div 16) div 16 ^ (k - Suc i)) mod 16)"
      by simp
  qed
  have "map (\<lambda>i. hex_digits ! ((n div 16 ^ (Suc k - Suc i)) mod 16)) [0..<Suc k]
      = map (\<lambda>i. hex_digits ! ((n div 16 ^ (Suc k - Suc i)) mod 16)) [0..<k]
          @ [hex_digits ! (n mod 16)]"
    by simp
  also note shift
  finally have "foldl (\<lambda>a c. 16 * a + hex_value c) 0
          (map (\<lambda>i. hex_digits ! ((n div 16 ^ (Suc k - Suc i)) mod 16)) [0..<Suc k])
        = 16 * foldl (\<lambda>a c. 16 * a + hex_value c) 0
            (map (\<lambda>i. hex_digits ! (((n div 16) div 16 ^ (k - Suc i)) mod 16)) [0..<k])
          + hex_value (hex_digits ! (n mod 16))"
    by (simp only: foldl_append foldl.simps)
  also have "\<dots> = 16 * ((n div 16) mod 16 ^ k) + n mod 16"
    by (simp only: Suc.IH) (simp add: hex_value_digit)
  also have "\<dots> = n mod 16 ^ Suc k"
    by (simp add: mod_mult2_eq)
  finally show ?case .
qed

lemma hex_positions_upt: "hex_positions = [0..<24]"
  by (simp add: hex_positions_def upt_conv_Cons)

lemma new_ObjectId_toHexString: "new_ObjectId (toHexString oid) = oid"
proof -
  have "unat oid < 2 ^ 96" using unsigned_less [of oid] by simp
  moreover have "(2::nat) ^ 96 = 16 ^ 24" by simp
  ultimately have lt: "unat oid < 16 ^ 24" by (simp only:)
  have "toHexString oid
      = map (\<lambda>i. hex_digits ! ((unat oid div 16 ^ (24 - Suc i)) mod 16)) [0..<24]"
    unfolding toHexString_def hex_positions_upt
    by (rule map_cong [OF refl]) simp
  then have "foldl (\<lambda>a c. 16 * a + hex_value c) 0 (toHexString oid) = unat oid mod 16 ^ 24"
    by (simp only: hex_fold_digits)
  also have "\<dots> = unat oid" using lt by (rule mod_less)
  finally show ?thesis by (simp add: new_ObjectId_def)
qed

lemma pdf_not_image: "SUPPORTED_PDF_TYPE \<notin> set SUPPORTED_IMAGE_TYPES"
  by (simp add: SUPPORTED_PDF_TYPE_def SUPPORTED_IMAGE_TYPES_def)

lemma convert_files_png:
  "convert_files cs = Inr rs \<Longrightarrow>
   length rs = length cs \<and> list_all (\<lambda>r. res_contentType r = ''image/png'') rs"
  by (induction cs arbitrary: rs) (auto split: if_splits sum.splits)

lemma process_pdf_png:
  "process_pdf url env n = Inr rs \<Longrightarrow> list_all (\<lambda>r. res_contentType r = ''image/png'') rs"
  by (auto simp: process_pdf_def flask_convert_def
           split: sum.splits if_splits option.splits json.splits dest: convert_files_png)

lemma upload_image_finish:
  "upload_image env reqId k u n p t w = (Inr rs, w') \<Longrightarrow>
   \<exists>streamId r doc. upload_stream env = UploadFinish streamId \<and> rs = [r]
      \<and> res_fileId r = Some (JStr (toHexString streamId)) \<and> res_contentType r = t
      \<and> gridfs w' streamId = Some doc"
  by (auto simp: upload_image_def Let_def split: upload_outcome.splits option.splits)

lemma upload_image_error:
  "upload_image env reqId k u n p t w = (Inl e, w') \<Longrightarrow> w' = w"
  by (auto simp: upload_image_def Let_def split: upload_outcome.splits option.splits)

lemma handle_form_image_created:
  assumes "handle_form url env reqId k form w = (Inr resp, w')" "status resp = 201"
    and "map_of (form_files form) ''file'' = Some cf" "mimetype cf = Some t"
    and "t \<in> set SUPPORTED_IMAGE_TYPES"
  shows "\<exists>streamId r doc. upload_stream env = UploadFinish streamId \<and> body resp = Results [r]
      \<and> res_fileId r = Some (JStr (toHexString streamId)) \<and> res_contentType r = t
      \<and> gridfs w' streamId = Some doc"
proof -
  from assms(5) have np: "t \<noteq> SUPPORTED_PDF_TYPE" using pdf_not_image by auto
  from assms np obtain u n rs where "upload_image env reqId k u n (filepath cf) t w = (Inr rs, w')"
     "resp = created rs"
    by (auto simp: handle_form_def Let_def json_error_def
             split: option.splits if_splits prod.splits sum.splits)
  with upload_image_finish [OF this(1)] show ?thesis
    by (auto simp: created_def)
qed

lemma handle_form_pdf_created:
  assumes "handle_form url env reqId k form w = (Inr resp, w')" "status resp = 201"
    and "map_of (form_files form) ''file'' = Some cf" "mimetype cf = Some SUPPORTED_PDF_TYPE"
  shows "\<exists>rs. body resp = Results rs \<and> list_all (\<lambda>r. res_contentType r = ''image/png'') rs"
  using assms
  by (auto simp: handle_form_def Let_def json_error_def created_def
           split: option.splits if_splits prod.splits sum.splits dest: process_pdf_png)

lemma handle_form_gridfs:
  assumes "handle_form url env reqId k form w = (r, w')"
    and "\<And>cf t. map_of (form_files form) ''file'' = Some cf \<Longrightarrow> mimetype cf = Some t
           \<Longrightarrow> t \<notin> set SUPPORTED_IMAGE_TYPES"
  shows "gridfs w' = gridfs w"
  using assms
  by (auto simp: handle_form_def Let_def
           split: option.splits if_splits prod.splits sum.splits)

lemma handle_form_no_userId:
  "userId_of (form_fields form) = None \<Longrightarrow>
   handle_form url env reqId k form w =
     (Inr (json_error 400 ''Missing userId in form data.'' ''MISSING_USER_ID''), w)"
  by (simp add: handle_form_def)

lemma handle_form_no_file:
  "map_of (form_files form) ''file'' = None \<Longrightarrow>
   \<exists>resp. handle_form url env reqId k form w = (Inr resp, w) \<and> status resp = 400
     \<and> (userId_of (form_fields form) \<noteq> None \<and> userId_of (form_fields form) \<noteq> Some [] \<longrightarrow>
         body resp = ErrorBody ''No file uploaded or file path missing.'' ''NO_FILE_UPLOADED'' None)"
  by (auto simp: handle_form_def json_error_def split: option.splits)

lemma handle_form_unsupported:
  assumes "userId_of (form_fields form) = Some u" "u \<noteq> []"
    and "map_of (form_files form) ''file'' = Some cf" "filepath cf \<noteq> []" "mimetype cf = Some t"
    and "t \<noteq> SUPPORTED_PDF_TYPE" "t \<notin> set SUPPORTED_IMAGE_TYPES"
  shows "\<exists>resp. handle_form url env reqId k form w = (Inr resp, w) \<and> status resp = 415"
  using assms by (auto simp: handle_form_def Let_def json_error_def)

lemma handle_form_throw:
  "handle_form url env reqId k form w = (Inl e, w') \<Longrightarrow> w' = w"
  by (auto simp: handle_form_def Let_def
           split: option.splits if_splits prod.splits sum.splits dest: upload_image_error)

lemma POST_try_cases:
  assumes "POST_try url env reqId req w = (r, paths, w1)"
  shows "((\<exists>e. r = Inl e) \<and> gridfs w1 = gridfs w) \<or>
   (\<exists>entries form dsk' resp. req = Inr entries \<and> r = Inr resp
      \<and> parse_entries env reqId 0 entries (disk w) \<lparr>form_fields = [], form_files = []\<rparr> = (Inr form, dsk')
      \<and> handle_form url env reqId (length entries) form (w\<lparr>disk := dsk'\<rparr>) = (r, w1))"
proof (cases r)
  case (Inl e)
  with assms have "gridfs w1 = gridfs w"
    by (auto simp: POST_try_def parseFormRevised_def entry_count_def
             split: sum.splits option.splits if_splits prod.splits dest!: handle_form_throw)
  with Inl show ?thesis by simp
next
  case (Inr resp)
  with assms show ?thesis
    by (auto simp: POST_try_def parseFormRevised_def entry_count_def
             split: sum.splits option.splits if_splits prod.splits)
qed

lemma POST_cases:
  "(status (fst (POST cfg env reqId req w)) = 500 \<and> gridfs (snd (POST cfg env reqId req w)) = gridfs w) \<or>
   (\<exists>url entries form dsk' w1. cfg = Some url \<and> url \<noteq> [] \<and> req = Inr entries
      \<and> parse_entries env reqId 0 entries (disk w) \<lparr>form_fields = [], form_files = []\<rparr> = (Inr form, dsk')
      \<and> handle_form url env reqId (length entries) form (w\<lparr>disk := dsk'\<rparr>) = (Inr (fst (POST cfg env reqId req w)), w1)
      \<and> gridfs (snd (POST cfg env reqId req w)) = gridfs w1)"
proof (cases "truthy cfg")
  case False
  then show ?thesis
    by (auto simp: POST_def truthy_def json_error_def split: option.splits)
next
  case True
  then obtain url where cfg: "cfg = Some url" "url \<noteq> []"
    by (auto simp: truthy_def split: option.splits)
  obtain r paths w1 where T: "POST_try url env reqId req w = (r, paths, w1)"
    by (cases "POST_try url env reqId req w") auto
  from POST_try_cases [OF T] cfg T show ?thesis
    by (cases r) (auto simp: POST_def server_error_def)
qed

lemma POST_forward:
  assumes "url \<noteq> []" "connectToDb env = Inr (Some conn)" "has_bucket conn" "has_db conn"
    and "parse_entries env reqId 0 entries (disk w) \<lparr>form_fields = [], form_files = []\<rparr> = (Inr form, dsk')"
    and "handle_form url env reqId (length entries) form (w\<lparr>disk := dsk'\<rparr>) = (Inr resp, w1)"
  shows "fst (POST (Some url) env reqId (Inr entries) w) = resp"
  using assms by (simp add: POST_def POST_try_def parseFormRevised_def entry_count_def)

lemma uploaded_file_parsed:
  assumes "parse_entries env reqId i entries dsk \<lparr>form_fields = [], form_files = []\<rparr> = (Inr form, dsk')"
    and "uploaded_file entries = Some f"
  shows "\<exists>cf. map_of (form_files form) ''file'' = Some cf \<and> filepath cf \<noteq> []
           \<and> mimetype cf = Some (file_type f)"
  using parse_entries_file [OF assms(1), of "''file''"] assms(2)
  by (auto simp: uploaded_file_def split: list.splits)

lemma no_file_parsed:
  assumes "parse_entries env reqId i entries dsk \<lparr>form_fields = [], form_files = []\<rparr> = (Inr form, dsk')"
    and "file_entries ''file'' entries = []"
  shows "map_of (form_files form) ''file'' = None"
  using parse_entries_file [OF assms(1), of "''file''"] assms(2) by simp

text \<open>
  C9: with the environment variable of the conversion service unset, \<open>POST\<close> answers
  500 with the error key \<open>FLASK_URL_MISSING\<close> for every request, whatever its form
  holds and whatever the state of the database, and leaves disk and bucket as they were:
  the form is not parsed and no scratch file is written.
\<close>

theorem POST_flask_url_unset_500:
  "POST None env reqId req w =
     (\<lparr>status = 500, headers = [],
       body = ErrorBody ''Server configuration error: Flask server URL not set.''
                ''FLASK_URL_MISSING'' None\<rparr>, w)"
  by (simp add: POST_def json_error_def)

text \<open>
  C4: when \<open>POST\<close> answers 201 to a request whose uploaded file has a supported image
  type, the body is an array of exactly one entry; its \<open>fileId\<close> is the hexadecimal
  form of the identifier of the upload stream, that form is a valid store identifier
  which reads back as the same identifier, and the bucket holds a file under this
  identifier when the handler returns.
\<close>

theorem POST_image_one_result:
  "status (fst (POST cfg env reqId (Inr entries) w)) = 201
   \<and> uploaded_file entries = Some f \<and> file_type f \<in> set SUPPORTED_IMAGE_TYPES \<longrightarrow>
   (\<exists>streamId r doc. upload_stream env = UploadFinish streamId
      \<and> body (fst (POST cfg env reqId (Inr entries) w)) = Results [r]
      \<and> res_fileId r = Some (JStr (toHexString streamId))
      \<and> ObjectId_isValid (toHexString streamId)
      \<and> new_ObjectId (toHexString streamId) = streamId
      \<and> res_contentType r = file_type f
      \<and> gridfs (snd (POST cfg env reqId (Inr entries) w)) streamId = Some doc)"
proof (intro impI, elim conjE)
  assume st: "status (fst (POST cfg env reqId (Inr entries) w)) = 201"
    and up: "uploaded_file entries = Some f" and ty: "file_type f \<in> set SUPPORTED_IMAGE_TYPES"
  from POST_cases [of cfg env reqId "Inr entries" w] st
  obtain url form dsk' w1 where
    pe: "parse_entries env reqId 0 entries (disk w) \<lparr>form_fields = [], form_files = []\<rparr> = (Inr form, dsk')"
    and hf: "handle_form url env reqId (length entries) form (w\<lparr>disk := dsk'\<rparr>)
               = (Inr (fst (POST cfg env reqId (Inr entries) w)), w1)"
    and g: "gridfs (snd (POST cfg env reqId (Inr entries) w)) = gridfs w1"
    by auto
  from uploaded_file_parsed [OF pe up] obtain cf where
    cf: "map_of (form_files form) ''file'' = Some cf" "mimetype cf = Some (file_type f)"
    by blast
  from handle_form_image_created [OF hf st cf ty] g toHexString_valid
    new_ObjectId_toHexString show
    "\<exists>streamId r doc. upload_stream env = UploadFinish streamId
      \<and> body (fst (POST cfg env reqId (Inr entries) w)) = Results [r]
      \<and> res_fileId r = Some (JStr (toHexString streamId))
      \<and> ObjectId_isValid (toHexString streamId)
      \<and> new_ObjectId (toHexString streamId) = streamId
      \<and> res_contentType r = file_type f
      \<and> gridfs (snd (POST cfg env reqId (Inr entries) w)) streamId = Some doc"
    by auto
qed

text \<open>
  C5: when \<open>POST\<close> answers 201 to a request whose uploaded file is a PDF, the body is
  an array of page entries (possibly empty), each with the content type \<open>image/png\<close>.
\<close>

theorem POST_pdf_pages_png:
  "status (fst (POST cfg env reqId (Inr entries) w)) = 201
   \<and> uploaded_file entries = Some f \<and> file_type f = SUPPORTED_PDF_TYPE \<longrightarrow>
   (\<exists>results. body (fst (POST cfg env reqId (Inr entries) w)) = Results results
      \<and> list_all (\<lambda>r. res_contentType r = ''image/png'') results)"
proof (intro impI, elim conjE)
  assume st: "status (fst (POST cfg env reqId (Inr entries) w)) = 201"
    and up: "uploaded_file entries = Some f" and ty: "file_type f = SUPPORTED_PDF_TYPE"
  from POST_cases [of cfg env reqId "Inr entries" w] st
  obtain url form dsk' w1 where
    pe: "parse_entries env reqId 0 entries (disk w) \<lparr>form_fields = [], form_files = []\<rparr> = (Inr form, dsk')"
    and hf: "handle_form url env reqId (length entries) form (w\<lparr>disk := dsk'\<rparr>)
               = (Inr (fst (POST cfg env reqId (Inr entries) w)), w1)"
    by auto
  from uploaded_file_parsed [OF pe up] ty obtain cf where
    cf: "map_of (form_files form) ''file'' = Some cf" "mimetype cf = Some SUPPORTED_PDF_TYPE"
    by auto
  from handle_form_pdf_created [OF hf st cf] show
    "\<exists>results. body (fst (POST cfg env reqId (Inr entries) w)) = Results results
      \<and> list_all (\<lambda>r. res_contentType r = ''image/png'') results" .
qed


text \<open>
  C3, as the code has it. For a request whose uploaded file is declared with a type that
  is neither the PDF type nor a supported image type, \<open>POST\<close> never writes to the
  bucket. The answer is 415 when the conversion-service URL is configured, the database
  connection is there with bucket and \<open>db\<close>, the scratch files can be written, and the
  form has a non-empty \<open>userId\<close> text value.
\<close>

theorem POST_unsupported_type_415:
  "uploaded_file entries = Some f \<and> file_type f \<noteq> SUPPORTED_PDF_TYPE
   \<and> file_type f \<notin> set SUPPORTED_IMAGE_TYPES \<longrightarrow>
     gridfs (snd (POST cfg env reqId (Inr entries) w)) = gridfs w
     \<and> (cfg = Some url \<and> url \<noteq> [] \<and> connectToDb env = Inr (Some conn) \<and> has_bucket conn
          \<and> has_db conn \<and> (\<forall>p. writeFile_error env p = None)
          \<and> (\<exists>u \<in> set (text_values ''userId'' entries). u \<noteq> [])
        \<longrightarrow> status (fst (POST cfg env reqId (Inr entries) w)) = 415)"
proof (intro impI, elim conjE)
  assume up: "uploaded_file entries = Some f" and np: "file_type f \<noteq> SUPPORTED_PDF_TYPE"
    and ni: "file_type f \<notin> set SUPPORTED_IMAGE_TYPES"
  have g: "gridfs (snd (POST cfg env reqId (Inr entries) w)) = gridfs w"
  proof -
    from POST_cases [of cfg env reqId "Inr entries" w]
    consider "gridfs (snd (POST cfg env reqId (Inr entries) w)) = gridfs w"
      | url form dsk' w1 where
        "parse_entries env reqId 0 entries (disk w) \<lparr>form_fields = [], form_files = []\<rparr> = (Inr form, dsk')"
        "handle_form url env reqId (length entries) form (w\<lparr>disk := dsk'\<rparr>)
               = (Inr (fst (POST cfg env reqId (Inr entries) w)), w1)"
        "gridfs (snd (POST cfg env reqId (Inr entries) w)) = gridfs w1"
      by auto
    then show ?thesis
    proof cases
      case 1
      then show ?thesis .
    next
      case 2
      from uploaded_file_parsed [OF 2(1) up] obtain cf where
        cf: "map_of (form_files form) ''file'' = Some cf" "mimetype cf = Some (file_type f)"
        by blast
      have "gridfs w1 = gridfs (w\<lparr>disk := dsk'\<rparr>)"
        using cf ni by (intro handle_form_gridfs [OF 2(2)]) auto
      with 2(3) show ?thesis by simp
    qed
  qed
  have "status (fst (POST cfg env reqId (Inr entries) w)) = 415"
    if infra: "cfg = Some url \<and> url \<noteq> [] \<and> connectToDb env = Inr (Some conn) \<and> has_bucket conn
          \<and> has_db conn \<and> (\<forall>p. writeFile_error env p = None)
          \<and> (\<exists>u \<in> set (text_values ''userId'' entries). u \<noteq> [])"
  proof -
    from infra have W: "\<forall>p. writeFile_error env p = None" by simp
    from parse_entries_succeeds [OF W] obtain form dsk' where
      pe: "parse_entries env reqId 0 entries (disk w) \<lparr>form_fields = [], form_files = []\<rparr> = (Inr form, dsk')"
      by blast
    from parse_entries_userId_present [OF pe] infra obtain u where
      u: "userId_of (form_fields form) = Some u" "u \<noteq> []" by blast
    from uploaded_file_parsed [OF pe up] obtain cf where
      cf: "map_of (form_files form) ''file'' = Some cf" "filepath cf \<noteq> []"
          "mimetype cf = Some (file_type f)"
      by blast
    from handle_form_unsupported [OF u cf np ni] obtain resp where
      hf: "handle_form url env reqId (length entries) form (w\<lparr>disk := dsk'\<rparr>) = (Inr resp, w\<lparr>disk := dsk'\<rparr>)"
      and st: "status resp = 415"
      by blast
    from infra POST_forward [OF _ _ _ _ pe hf, of conn] st show ?thesis by simp
  qed
  with g show "gridfs (snd (POST cfg env reqId (Inr entries) w)) = gridfs w
     \<and> (cfg = Some url \<and> url \<noteq> [] \<and> connectToDb env = Inr (Some conn) \<and> has_bucket conn
          \<and> has_db conn \<and> (\<forall>p. writeFile_error env p = None)
          \<and> (\<exists>u \<in> set (text_values ''userId'' entries). u \<noteq> [])
        \<longrightarrow> status (fst (POST cfg env reqId (Inr entries) w)) = 415)"
    by blast
qed

lemma uploaded_text: "uploaded_file entries_text = Some txt_file"
  by (simp add: uploaded_file_def entries_text_def)

text \<open>The instance of C3 for a \<open>text/plain\<close> upload.\<close>

theorem POST_unsupported_type_415_witness:
  "status (fst (POST (Some flask_url) up_env ''k3x9q2a'' (Inr entries_text) world0)) = 415
   \<and> gridfs (snd (POST (Some flask_url) up_env ''k3x9q2a'' (Inr entries_text) world0)) = gridfs world0"
  using POST_unsupported_type_415
          [of entries_text txt_file "Some flask_url" up_env "''k3x9q2a''" world0 flask_url
              "\<lparr>has_bucket = True, has_db = True\<rparr>"]
        uploaded_text
  by (simp add: txt_file_def SUPPORTED_PDF_TYPE_def SUPPORTED_IMAGE_TYPES_def flask_url_def
                up_env_def entries_text_def)

text \<open>
  C3 as the claim words it (415 for every request with a \<open>userId\<close> and a file of an
  unsupported type) fails when the conversion-service URL is not configured: the guard
  at the top of the handler answers 500.
\<close>

theorem POST_unsupported_type_url_unset_500:
  "uploaded_file entries_text = Some txt_file
   \<and> file_type txt_file \<noteq> SUPPORTED_PDF_TYPE \<and> file_type txt_file \<notin> set SUPPORTED_IMAGE_TYPES
   \<and> text_values ''userId'' entries_text = [''alice'']
   \<and> status (fst (POST None up_env ''k3x9q2a'' (Inr entries_text) world0)) = 500"
  using uploaded_text
  by (simp add: txt_file_def SUPPORTED_PDF_TYPE_def SUPPORTED_IMAGE_TYPES_def entries_text_def
                POST_def json_error_def)

text \<open>
  C7, as the code has it. When the conversion-service URL is configured, the database
  connection is there with bucket and \<open>db\<close>, and the scratch files can be written: a
  form without a \<open>userId\<close> text field is answered 400 (\<open>MISSING_USER_ID\<close>), and a form
  without a file under \<open>file\<close> is answered 400 as well (\<open>NO_FILE_UPLOADED\<close> when it
  has a non-empty \<open>userId\<close>).
\<close>

theorem POST_missing_userId_or_file_400:
  "cfg = Some url \<and> url \<noteq> [] \<and> connectToDb env = Inr (Some conn) \<and> has_bucket conn
   \<and> has_db conn \<and> (\<forall>p. writeFile_error env p = None) \<longrightarrow>
     (text_values ''userId'' entries = [] \<longrightarrow>
        status (fst (POST cfg env reqId (Inr entries) w)) = 400
        \<and> body (fst (POST cfg env reqId (Inr entries) w))
            = ErrorBody ''Missing userId in form data.'' ''MISSING_USER_ID'' None)
     \<and> (file_entries ''file'' entries = [] \<longrightarrow>
        status (fst (POST cfg env reqId (Inr entries) w)) = 400
        \<and> ((\<exists>u \<in> set (text_values ''userId'' entries). u \<noteq> []) \<longrightarrow>
             body (fst (POST cfg env reqId (Inr entries) w))
               = ErrorBody ''No file uploaded or file path missing.'' ''NO_FILE_UPLOADED'' None))"
proof (intro impI, elim conjE)
  assume cfg: "cfg = Some url" "url \<noteq> []" and db: "connectToDb env = Inr (Some conn)"
    "has_bucket conn" "has_db conn" and W: "\<forall>p. writeFile_error env p = None"
  from parse_entries_succeeds [OF W] obtain form dsk' where
    pe: "parse_entries env reqId 0 entries (disk w) \<lparr>form_fields = [], form_files = []\<rparr> = (Inr form, dsk')"
    by blast
  let ?w = "w\<lparr>disk := dsk'\<rparr>"
  have a: "status (fst (POST cfg env reqId (Inr entries) w)) = 400
        \<and> body (fst (POST cfg env reqId (Inr entries) w))
            = ErrorBody ''Missing userId in form data.'' ''MISSING_USER_ID'' None"
    if "text_values ''userId'' entries = []"
  proof -
    from parse_entries_userId_absent [OF pe that]
    have "handle_form url env reqId (length entries) form ?w =
            (Inr (json_error 400 ''Missing userId in form data.'' ''MISSING_USER_ID''), ?w)"
      by (rule handle_form_no_userId)
    from POST_forward [OF cfg(2) db pe this] cfg(1) show ?thesis
      by (simp add: json_error_def)
  qed
  have b: "status (fst (POST cfg env reqId (Inr entries) w)) = 400
        \<and> ((\<exists>u \<in> set (text_values ''userId'' entries). u \<noteq> []) \<longrightarrow>
             body (fst (POST cfg env reqId (Inr entries) w))
               = ErrorBody ''No file uploaded or file path missing.'' ''NO_FILE_UPLOADED'' None)"
    if "file_entries ''file'' entries = []"
  proof -
    from handle_form_no_file [OF no_file_parsed [OF pe that], of url env reqId "length entries" ?w]
    obtain resp where hf: "handle_form url env reqId (length entries) form ?w = (Inr resp, ?w)"
      and st: "status resp = 400"
      and bd: "userId_of (form_fields form) \<noteq> None \<and> userId_of (form_fields form) \<noteq> Some [] \<longrightarrow>
         body resp = ErrorBody ''No file uploaded or file path missing.'' ''NO_FILE_UPLOADED'' None"
      by blast
    from POST_forward [OF cfg(2) db pe hf] cfg(1)
    have eq: "fst (POST cfg env reqId (Inr entries) w) = resp" by simp
    have "body resp = ErrorBody ''No file uploaded or file path missing.'' ''NO_FILE_UPLOADED'' None"
      if "\<exists>u \<in> set (text_values ''userId'' entries). u \<noteq> []"
    proof -
      from parse_entries_userId_present [OF pe that] obtain u where
        "userId_of (form_fields form) = Some u" "u \<noteq> []" by blast
      with bd show ?thesis by simp
    qed
    with eq st show ?thesis by simp
  qed
  from a b show "(text_values ''userId'' entries = [] \<longrightarrow>
        status (fst (POST cfg env reqId (Inr entries) w)) = 400
        \<and> body (fst (POST cfg env reqId (Inr entries) w))
            = ErrorBody ''Missing userId in form data.'' ''MISSING_USER_ID'' None)
     \<and> (file_entries ''file'' entries = [] \<longrightarrow>
        status (fst (POST cfg env reqId (Inr entries) w)) = 400
        \<and> ((\<exists>u \<in> set (text_values ''userId'' entries). u \<noteq> []) \<longrightarrow>
             body (fst (POST cfg env reqId (Inr entries) w))
               = ErrorBody ''No file uploaded or file path missing.'' ''NO_FILE_UPLOADED'' None))"
    by blast
qed

text \<open>The instances of C7 for a form with only a file and a form with only a \<open>userId\<close>.\<close>

theorem POST_missing_userId_or_file_400_witness:
  "status (fst (POST (Some flask_url) up_env ''k3x9q2a'' (Inr [(''file'', FileValue png_file)]) world0)) = 400
   \<and> status (fst (POST (Some flask_url) up_env ''k3x9q2a'' (Inr [(''userId'', TextValue ''alice'')]) world0)) = 400
   \<and> body (fst (POST (Some flask_url) up_env ''k3x9q2a'' (Inr [(''userId'', TextValue ''alice'')]) world0))
       = ErrorBody ''No file uploaded or file path missing.'' ''NO_FILE_UPLOADED'' None"
  using POST_missing_userId_or_file_400
          [of "Some flask_url" flask_url up_env "\<lparr>has_bucket = True, has_db = True\<rparr>"
              "[(''file'', FileValue png_file)]" "''k3x9q2a''" world0]
        POST_missing_userId_or_file_400
          [of "Some flask_url" flask_url up_env "\<lparr>has_bucket = True, has_db = True\<rparr>"
              "[(''userId'', TextValue ''alice'')]" "''k3x9q2a''" world0]
  by (simp add: flask_url_def up_env_def)

text \<open>
  C7 as the claim words it (400 for every request without a \<open>userId\<close> field) fails when
  the conversion-service URL is not configured: the empty form is answered 500.
\<close>

theorem POST_missing_userId_url_unset_500:
  "text_values ''userId'' [] = []
   \<and> status (fst (POST None up_env ''k3x9q2a'' (Inr []) world0)) = 500"
  by (simp add: POST_def json_error_def)

lemma uploaded_image: "uploaded_file entries_image = Some png_file"
  by (simp add: uploaded_file_def entries_image_def)

lemma uploaded_pdf: "uploaded_file entries_pdf = Some pdf_file"
  by (simp add: uploaded_file_def entries_pdf_def)

lemma image_201: "status (fst (POST (Some flask_url) up_env ''k3x9q2a'' (Inr entries_image) world0)) = 201"
  by (simp add: post_defs up_env_def entries_image_def world0_def png_file_def flask_url_def)

lemma pdf_201: "status (fst (POST (Some flask_url) up_env ''k3x9q2a'' (Inr entries_pdf) world0)) = 201"
  by (simp add: post_defs up_env_def entries_pdf_def world0_def pdf_file_def flask_url_def
       readFile_def process_pdf_def flask_convert_def get_prop_def)

text \<open>The instance of C4 for a PNG upload.\<close>

theorem POST_image_one_result_witness:
  "status (fst (POST (Some flask_url) up_env ''k3x9q2a'' (Inr entries_image) world0)) = 201
   \<and> (\<exists>r doc. body (fst (POST (Some flask_url) up_env ''k3x9q2a'' (Inr entries_image) world0)) = Results [r]
        \<and> res_fileId r = Some (JStr (toHexString 0x507f1f77bcf86cd799439011))
        \<and> gridfs (snd (POST (Some flask_url) up_env ''k3x9q2a'' (Inr entries_image) world0))
            0x507f1f77bcf86cd799439011 = Some doc)"
  using POST_image_one_result
          [of "Some flask_url" up_env "''k3x9q2a''" entries_image world0 png_file]
        image_201 uploaded_image
  by (auto simp: png_file_def SUPPORTED_IMAGE_TYPES_def up_env_def)

text \<open>The instance of C5 for a PDF that the service converts to one page.\<close>

theorem POST_pdf_pages_png_witness:
  "status (fst (POST (Some flask_url) up_env ''k3x9q2a'' (Inr entries_pdf) world0)) = 201
   \<and> (\<exists>results. body (fst (POST (Some flask_url) up_env ''k3x9q2a'' (Inr entries_pdf) world0)) = Results results
        \<and> list_all (\<lambda>r. res_contentType r = ''image/png'') results)"
  using POST_pdf_pages_png
          [of "Some flask_url" up_env "''k3x9q2a''" entries_pdf world0 pdf_file]
        pdf_201 uploaded_pdf
  by (simp add: pdf_file_def SUPPORTED_PDF_TYPE_def)

text \<open>
  C1, as the code has it. When the scratch files can be written, every unlink succeeds,
  and the file entries of the form have pairwise different names, none of them
  \<open>__proto__\<close>, no scratch file outlives the handler on any exit path: every file on
  disk when \<open>POST\<close> returns was there before, with the same content.
\<close>

theorem POST_scratch_files_removed:
  "(\<forall>p. writeFile_error env p = None) \<and> (\<forall>p. unlink_error env p = None)
   \<and> distinct (request_file_keys req) \<and> ''__proto__'' \<notin> set (request_file_keys req)
   \<longrightarrow> disk (snd (POST cfg env reqId req w)) \<subseteq>\<^sub>m disk w"
  using POST_scratch by blast

text \<open>The instance of C1 for a PNG upload.\<close>

theorem POST_scratch_files_removed_witness:
  "distinct (request_file_keys (Inr entries_image))
   \<and> ''__proto__'' \<notin> set (request_file_keys (Inr entries_image))
   \<and> disk (snd (POST (Some flask_url) up_env ''k3x9q2a'' (Inr entries_image) world0))
       \<subseteq>\<^sub>m disk world0"
  using POST_scratch_files_removed
          [of up_env "Inr entries_image" "Some flask_url" "''k3x9q2a''" world0]
  by (simp add: up_env_def request_file_keys_def entries_image_def)

text \<open>
  C1 as the claim words it (removal on every exit path) fails where cleanup is only
  best effort: an unlink that throws is caught and logged, and the scratch file of a
  successful upload stays on disk.
\<close>

theorem POST_unlink_failure_leaves_scratch_file:
  "disk world0 ''/tmp/nextjs_temp_k3x9q2a_1001_cert.png'' = None
   \<and> status (fst (POST (Some flask_url) unlink_fails_env ''k3x9q2a'' (Inr entries_image) world0)) = 201
   \<and> disk (snd (POST (Some flask_url) unlink_fails_env ''k3x9q2a'' (Inr entries_image) world0))
        ''/tmp/nextjs_temp_k3x9q2a_1001_cert.png'' = Some [137, 80, 78]"
  by (simp add: post_defs unlink_fails_env_def up_env_def entries_image_def world0_def png_file_def
                flask_url_def)

text \<open>
  Two further ways in which a scratch file stays, both outside the statement above. A
  second file under the same name replaces the first one's entry in \<open>files\<close>, so the
  first scratch file is never recorded for deletion; and when writing a later file
  fails, the parser throws before any path is recorded.
\<close>

lemma POST_replaced_file_entry_leaves_scratch_file:
  "disk world0 ''/tmp/nextjs_temp_k3x9q2a_1001_notes.txt'' = None
   \<and> status (fst (POST (Some flask_url) up_env ''k3x9q2a'' (Inr entries_two_files) world0)) = 201
   \<and> disk (snd (POST (Some flask_url) up_env ''k3x9q2a'' (Inr entries_two_files) world0))
        ''/tmp/nextjs_temp_k3x9q2a_1001_notes.txt'' = Some [104, 105]"
  by (simp add: post_defs up_env_def entries_two_files_def world0_def png_file_def txt_file_def
                flask_url_def)

lemma POST_failed_parse_leaves_scratch_file:
  "disk world0 ''/tmp/nextjs_temp_k3x9q2a_1001_notes.txt'' = None
   \<and> status (fst (POST (Some flask_url) second_write_fails_env ''k3x9q2a'' (Inr entries_two_files) world0)) = 500
   \<and> disk (snd (POST (Some flask_url) second_write_fails_env ''k3x9q2a'' (Inr entries_two_files) world0))
        ''/tmp/nextjs_temp_k3x9q2a_1001_notes.txt'' = Some [104, 105]"
  by (simp add: post_defs second_write_fails_env_def up_env_def entries_two_files_def world0_def
                png_file_def txt_file_def flask_url_def Error_def)

section \<open>Properties of the auth/profile state adapter\<close>

lemma active_snoc: "active_listeners (log @ [e]) = apply_listener_event (active_listeners log) e"
  by (simp add: active_listeners_def)

lemma at_most_one_snoc:
  "at_most_one log \<Longrightarrow> length (active_listeners (log @ [e])) \<le> 1 \<Longrightarrow> at_most_one (log @ [e])"
  unfolding at_most_one_def
proof
  fix n
  assume a: "\<forall>n. length (active_listeners (take n log)) \<le> 1"
    and b: "length (active_listeners (log @ [e])) \<le> 1"
  show "length (active_listeners (take n (log @ [e]))) \<le> 1"
  proof (cases "n \<le> length log")
    case True
    with a show ?thesis by simp
  next
    case False
    with b show ?thesis by simp
  qed
qed

lemma attach_after_detach_snoc:
  "attach_after_detach log \<Longrightarrow> (\<forall>h u. e = Attached h u \<longrightarrow> active_listeners log = []) \<Longrightarrow>
   attach_after_detach (log @ [e])"
  unfolding attach_after_detach_def
  by (auto simp: nth_append less_Suc_eq)

lemma inv_detach_previous:
  assumes "auth_inv s" "auth_subscribed s"
  shows "auth_inv (detach_previous s) \<and> profileListenerUnsubscribe (detach_previous s) = None
         \<and> auth_subscribed (detach_previous s)"
proof (cases "profileListenerUnsubscribe s")
  case None
  with assms show ?thesis by (simp add: detach_previous_def)
next
  case (Some h)
  with assms have act: "active_listeners (listener_log s) = [h]"
    by (simp add: auth_inv_def handle_fresh_def expected_active_def)
  then have e: "active_listeners (listener_log s @ [Detached h]) = []"
    by (simp add: active_snoc)
  from assms e have "at_most_one (listener_log s @ [Detached h])"
    "attach_after_detach (listener_log s @ [Detached h])"
    by (auto simp: auth_inv_def handle_fresh_def intro: at_most_one_snoc attach_after_detach_snoc)
  with e Some assms(2) show ?thesis
    by (simp add: detach_previous_def auth_inv_def handle_fresh_def expected_active_def)
qed

lemma inv_authStateChanged:
  assumes "auth_inv s" "auth_subscribed s"
  shows "auth_inv (authStateChanged firebaseUser s)"
proof -
  let ?s1 = "detach_previous s"
  from inv_detach_previous [OF assms] have i1: "auth_inv ?s1"
    and v1: "profileListenerUnsubscribe ?s1 = None" and m1: "auth_subscribed ?s1"
    by simp_all
  from i1 v1 m1 have a1: "active_listeners (listener_log ?s1) = []"
    by (simp add: auth_inv_def handle_fresh_def expected_active_def)
  show ?thesis
  proof (cases firebaseUser)
    case None
    with i1 v1 m1 show ?thesis
      by (simp add: authStateChanged_def Let_def auth_inv_def handle_fresh_def expected_active_def)
  next
    case (Some u)
    let ?e = "Attached (next_listener ?s1) (uid u)"
    from a1 have e: "active_listeners (listener_log ?s1 @ [?e]) = [next_listener ?s1]"
      by (simp add: active_snoc)
    from i1 a1 e have "at_most_one (listener_log ?s1 @ [?e])"
      "attach_after_detach (listener_log ?s1 @ [?e])"
      by (auto simp: auth_inv_def handle_fresh_def intro: at_most_one_snoc attach_after_detach_snoc)
    with e Some m1 show ?thesis
      by (simp add: authStateChanged_def Let_def auth_inv_def handle_fresh_def expected_active_def)
  qed
qed

lemma snapshot_frame:
  "listener_log (auth_step s (Snapshot h d)) = listener_log s"
  "auth_subscribed (auth_step s (Snapshot h d)) = auth_subscribed s"
  "profileListenerUnsubscribe (auth_step s (Snapshot h d)) = profileListenerUnsubscribe s"
  "listener_log (auth_step s (SnapshotError h)) = listener_log s"
  "auth_subscribed (auth_step s (SnapshotError h)) = auth_subscribed s"
  "profileListenerUnsubscribe (auth_step s (SnapshotError h)) = profileListenerUnsubscribe s"
  "next_listener (auth_step s (Snapshot h d)) = next_listener s"
  "next_listener (auth_step s (SnapshotError h)) = next_listener s"
  by (cases "h \<in> set (active_listeners (listener_log s))"; simp)+

lemma inv_step:
  assumes i: "auth_inv s"
  shows "auth_inv (auth_step s ev)"
proof (cases ev)
  case Mount
  with i show ?thesis
    by (auto simp: auth_inv_def handle_fresh_def expected_active_def)
next
  case (AuthStateChanged fu)
  with i show ?thesis by (simp add: inv_authStateChanged)
next
  case (Snapshot h d)
  from i show ?thesis
    unfolding Snapshot auth_inv_def handle_fresh_def expected_active_def snapshot_frame .
next
  case (SnapshotError h)
  from i show ?thesis
    unfolding SnapshotError auth_inv_def handle_fresh_def expected_active_def snapshot_frame .
next
  case Unmount
  show ?thesis
  proof (cases "auth_subscribed s")
    case False
    with i Unmount show ?thesis by simp
  next
    case True
    show ?thesis
    proof (cases "profileListenerUnsubscribe s")
      case None
      with i True Unmount show ?thesis by (simp add: auth_inv_def handle_fresh_def expected_active_def)
    next
      case (Some h)
      with i True have "active_listeners (listener_log s) = [h]"
        by (simp add: auth_inv_def handle_fresh_def expected_active_def)
      then have e: "active_listeners (listener_log s @ [Detached h]) = []"
        by (simp add: active_snoc)
      from i e have "at_most_one (listener_log s @ [Detached h])"
        "attach_after_detach (listener_log s @ [Detached h])"
        by (auto simp: auth_inv_def handle_fresh_def intro: at_most_one_snoc attach_after_detach_snoc)
      with i e Some True Unmount show ?thesis
        by (simp add: auth_inv_def handle_fresh_def expected_active_def)
    qed
  qed
qed

lemma inv_foldl: "auth_inv s \<Longrightarrow> auth_inv (foldl auth_step s evs)"
  by (induction evs arbitrary: s) (simp_all add: inv_step)

lemma inv_initial: "auth_inv initial_state"
  by (simp add: auth_inv_def handle_fresh_def initial_state_def at_most_one_def attach_after_detach_def
                active_listeners_def expected_active_def)

lemma auth_run_snoc: "auth_run (evs @ [ev]) = auth_step (auth_run evs) ev"
  by (simp add: auth_run_def)

lemma auth_run_inv: "auth_inv (auth_run evs)"
  unfolding auth_run_def by (rule inv_foldl [OF inv_initial])

lemma authStateChanged_log:
  "listener_log (authStateChanged firebaseUser s)
     = listener_log s
       @ (case profileListenerUnsubscribe s of None \<Rightarrow> [] | Some h \<Rightarrow> [Detached h])
       @ (case firebaseUser of None \<Rightarrow> []
          | Some u \<Rightarrow> [Attached (next_listener s) (uid u)])"
  by (cases "profileListenerUnsubscribe s"; cases firebaseUser)
     (simp_all add: authStateChanged_def detach_previous_def Let_def)

lemma authStateChanged_active:
  assumes "auth_inv s" "auth_subscribed s"
  shows "active_listeners (listener_log (authStateChanged firebaseUser s))
           = (case firebaseUser of None \<Rightarrow> [] | Some u \<Rightarrow> [next_listener s])"
proof -
  from assms have a: "active_listeners (listener_log s)
      = (case profileListenerUnsubscribe s of None \<Rightarrow> [] | Some h \<Rightarrow> [h])"
    by (simp add: auth_inv_def expected_active_def)
  have d: "active_listeners (listener_log s
       @ (case profileListenerUnsubscribe s of None \<Rightarrow> [] | Some h \<Rightarrow> [Detached h])) = []"
    using a by (cases "profileListenerUnsubscribe s") (simp_all add: active_snoc)
  show ?thesis
  proof (cases firebaseUser)
    case None
    with d show ?thesis by (simp add: authStateChanged_log)
  next
    case (Some u)
    have "active_listeners ((listener_log s
       @ (case profileListenerUnsubscribe s of None \<Rightarrow> [] | Some h \<Rightarrow> [Detached h]))
       @ [Attached (next_listener s) (uid u)]) = [next_listener s]"
      by (simp only: active_snoc d) simp
    with Some show ?thesis by (simp add: authStateChanged_log)
  qed
qed

text \<open>
  C8: whatever sequence of mounts, auth-state changes, snapshots and unmounts the
  component goes through, every profile listener is attached at a moment when no
  listener is attached (the previous one, if any, has been detached before), and at no
  point of the sequence of calls to the document store are two listeners attached.
  And each auth-state change that reaches the mounted component tears the previous
  listener down, whether or not a user is present: the listener attached before the
  event is the one the closure variable holds; the calls the event makes are the
  detachment of that listener, if there is one, followed by the attachment of a new
  listener, if a user is present; after the event the only attached listener is the
  new one, none at sign-out; and no listener attached before the event is attached
  after it, so a snapshot still addressed to it changes nothing.
\<close>

theorem profile_listener_swap:
  "(\<forall>i h u. i < length (listener_log (auth_run evs)) \<and> listener_log (auth_run evs) ! i = Attached h u
       \<longrightarrow> active_listeners (take i (listener_log (auth_run evs))) = [])
   \<and> (\<forall>n. length (active_listeners (take n (listener_log (auth_run evs)))) \<le> 1)
   \<and> (auth_subscribed (auth_run evs) \<longrightarrow>
        active_listeners (listener_log (auth_run evs))
          = (case profileListenerUnsubscribe (auth_run evs) of None \<Rightarrow> [] | Some h \<Rightarrow> [h])
        \<and> listener_log (auth_run (evs @ [AuthStateChanged firebaseUser]))
          = listener_log (auth_run evs)
            @ (case profileListenerUnsubscribe (auth_run evs) of
                 None \<Rightarrow> [] | Some h \<Rightarrow> [Detached h])
            @ (case firebaseUser of
                 None \<Rightarrow> []
               | Some u \<Rightarrow> [Attached (next_listener (auth_run evs)) (uid u)])
        \<and> active_listeners (listener_log (auth_run (evs @ [AuthStateChanged firebaseUser])))
          = (case firebaseUser of None \<Rightarrow> [] | Some u \<Rightarrow> [next_listener (auth_run evs)])
        \<and> (\<forall>h \<in> set (active_listeners (listener_log (auth_run evs))).
              h \<notin> set (active_listeners
                         (listener_log (auth_run (evs @ [AuthStateChanged firebaseUser]))))
              \<and> (\<forall>docSnap. auth_run (evs @ [AuthStateChanged firebaseUser, Snapshot h docSnap])
                              = auth_run (evs @ [AuthStateChanged firebaseUser]))))"
proof -
  let ?s = "auth_run evs"
  let ?s' = "auth_run (evs @ [AuthStateChanged firebaseUser])"
  have i: "auth_inv ?s" by (rule auth_run_inv)
  then have old: "(\<forall>i h u. i < length (listener_log ?s) \<and> listener_log ?s ! i = Attached h u
       \<longrightarrow> active_listeners (take i (listener_log ?s)) = [])
   \<and> (\<forall>n. length (active_listeners (take n (listener_log ?s))) \<le> 1)"
    by (simp add: auth_inv_def at_most_one_def attach_after_detach_def)
  have new: "active_listeners (listener_log ?s)
          = (case profileListenerUnsubscribe ?s of None \<Rightarrow> [] | Some h \<Rightarrow> [h])
        \<and> listener_log ?s'
          = listener_log ?s
            @ (case profileListenerUnsubscribe ?s of None \<Rightarrow> [] | Some h \<Rightarrow> [Detached h])
            @ (case firebaseUser of
                 None \<Rightarrow> []
               | Some u \<Rightarrow> [Attached (next_listener ?s) (uid u)])
        \<and> active_listeners (listener_log ?s')
          = (case firebaseUser of None \<Rightarrow> [] | Some u \<Rightarrow> [next_listener ?s])
        \<and> (\<forall>h \<in> set (active_listeners (listener_log ?s)).
              h \<notin> set (active_listeners (listener_log ?s'))
              \<and> (\<forall>docSnap. auth_run (evs @ [AuthStateChanged firebaseUser, Snapshot h docSnap]) = ?s'))"
    if m: "auth_subscribed ?s"
  proof -
    have s': "?s' = authStateChanged firebaseUser ?s"
      using m by (simp add: auth_run_snoc)
    from i m have a: "active_listeners (listener_log ?s)
          = (case profileListenerUnsubscribe ?s of None \<Rightarrow> [] | Some h \<Rightarrow> [h])"
      by (simp add: auth_inv_def expected_active_def)
    have l: "listener_log ?s' = listener_log ?s
            @ (case profileListenerUnsubscribe ?s of None \<Rightarrow> [] | Some h \<Rightarrow> [Detached h])
            @ (case firebaseUser of
                 None \<Rightarrow> []
               | Some u \<Rightarrow> [Attached (next_listener ?s) (uid u)])"
      unfolding s' by (rule authStateChanged_log)
    have c: "active_listeners (listener_log ?s')
          = (case firebaseUser of None \<Rightarrow> [] | Some u \<Rightarrow> [next_listener ?s])"
      unfolding s' by (rule authStateChanged_active [OF i m])
    have gone: "h \<notin> set (active_listeners (listener_log ?s'))
              \<and> (\<forall>docSnap. auth_run (evs @ [AuthStateChanged firebaseUser, Snapshot h docSnap]) = ?s')"
      if h: "h \<in> set (active_listeners (listener_log ?s))" for h
    proof -
      from h a have "profileListenerUnsubscribe ?s = Some h"
        by (cases "profileListenerUnsubscribe ?s") simp_all
      with i have "h < next_listener ?s"
        by (simp add: auth_inv_def handle_fresh_def)
      with c have n: "h \<notin> set (active_listeners (listener_log ?s'))"
        by (cases firebaseUser) simp_all
      have "auth_run ((evs @ [AuthStateChanged firebaseUser]) @ [Snapshot h docSnap]) = ?s'"
        for docSnap
        using n by (simp only: auth_run_snoc auth_step.simps if_False)
      then show ?thesis using n by simp
    qed
    from a l c gone show ?thesis by blast
  qed
  from old new show ?thesis by blast
qed

lemma sample_log: "listener_log (auth_run sample_events)
   = [Attached 0 ''alice'', Detached 0, Attached 1 ''bob'', Detached 1]"
  by (simp add: auth_run_def sample_events_def initial_state_def authStateChanged_def
                detach_previous_def Let_def active_listeners_def)

lemma sample_signed_in:
  "auth_subscribed (auth_run sample_signed_in_events)"
  "profileListenerUnsubscribe (auth_run sample_signed_in_events) = Some 0"
  "listener_log (auth_run sample_signed_in_events) = [Attached 0 ''alice'']"
  by (simp_all add: auth_run_def sample_signed_in_events_def initial_state_def
                    authStateChanged_def detach_previous_def Let_def)

text \<open>
  The instance of C8 for a sign-in as one user followed by a sign-in as another, and
  for a sign-out of a signed-in user.
\<close>

theorem profile_listener_swap_witness:
  "listener_log (auth_run sample_events) ! 2 = Attached 1 ''bob''
   \<and> active_listeners (take 2 (listener_log (auth_run sample_events))) = []
   \<and> length (active_listeners (take 3 (listener_log (auth_run sample_events)))) \<le> 1
   \<and> auth_subscribed (auth_run sample_signed_in_events)
   \<and> active_listeners (listener_log (auth_run sample_signed_in_events)) = [0]
   \<and> listener_log (auth_run (sample_signed_in_events @ [AuthStateChanged None]))
        = [Attached 0 ''alice'', Detached 0]
   \<and> active_listeners (listener_log (auth_run (sample_signed_in_events @ [AuthStateChanged None])))
        = []
   \<and> auth_run (sample_signed_in_events @ [AuthStateChanged None, Snapshot 0 (Some ''stale'')])
        = auth_run (sample_signed_in_events @ [AuthStateChanged None])"
proof -
  let ?log = "listener_log (auth_run sample_events)"
  have l: "2 < length ?log" "?log ! 2 = Attached 1 ''bob''"
    by (simp_all add: sample_log)
  from profile_listener_swap [of sample_events]
  have a: "\<And>i h u. i < length ?log \<Longrightarrow> ?log ! i = Attached h u
             \<Longrightarrow> active_listeners (take i ?log) = []"
    and b: "\<And>n. length (active_listeners (take n ?log)) \<le> 1"
    by blast+
  have first: "?log ! 2 = Attached 1 ''bob'' \<and> active_listeners (take 2 ?log) = []
     \<and> length (active_listeners (take 3 ?log)) \<le> 1"
    using a [OF l] b [of 3] l(2) by simp
  have second: "active_listeners (listener_log (auth_run sample_signed_in_events)) = [0]
   \<and> listener_log (auth_run (sample_signed_in_events @ [AuthStateChanged None]))
        = [Attached 0 ''alice'', Detached 0]
   \<and> active_listeners (listener_log (auth_run (sample_signed_in_events @ [AuthStateChanged None])))
        = []
   \<and> auth_run (sample_signed_in_events @ [AuthStateChanged None, Snapshot 0 (Some ''stale'')])
        = auth_run (sample_signed_in_events @ [AuthStateChanged None])"
    using profile_listener_swap [of sample_signed_in_events None] sample_signed_in
    by (simp add: active_listeners_def)
  from first second sample_signed_in(1) show ?thesis by blast
qed

end
